theory Spec2Isabelle
  imports Main "HOL-Library.Char_ord" "HOL-Library.List_Lexorder" "HOL-Library.AList"
begin

section \<open>Strings and errors\<close>

text \<open>
  Python strings are modelled as \<open>string\<close>, lists of characters in which ASCII
  text stands for itself.  \<open>str.upper\<close> (line 120) is the case mapping of
  Unicode: it is neither restricted to the letters \<open>a\<close> to \<open>z\<close> nor
  length-preserving.  The model therefore takes it as the parameter \<open>upper\<close> of
  every function that reaches line 120, and theorems hold for every such function.
  Where a statement is about a concrete ASCII input, it assumes \<open>upper_on_ascii\<close>:
  on a string of ASCII characters \<open>str.upper\<close> maps the letters \<open>a\<close> to \<open>z\<close>
  to \<open>A\<close> to \<open>Z\<close> and leaves every other character as it is, which is what
  \<open>ascii_upper\<close> computes (on a letter it clears the bit of value 32, lemma
  \<open>of_char_ascii_upper_char\<close>).
\<close>

definition ascii_upper_char :: "char \<Rightarrow> char" where
  "ascii_upper_char c =
     (if CHR ''a'' \<le> c \<and> c \<le> CHR ''z''
      then (case c of Char b0 b1 b2 b3 b4 b5 b6 b7 \<Rightarrow> Char b0 b1 b2 b3 b4 False b6 b7)
      else c)"

definition ascii_upper :: "string \<Rightarrow> string" where
  "ascii_upper s = map ascii_upper_char s"

definition is_ascii :: "string \<Rightarrow> bool" where
  "is_ascii s \<longleftrightarrow> list_all (\<lambda>c. (of_char c :: nat) < 128) s"

definition upper_on_ascii :: "(string \<Rightarrow> string) \<Rightarrow> bool" where
  "upper_on_ascii upper \<longleftrightarrow> (\<forall>s. is_ascii s \<longrightarrow> upper s = ascii_upper s)"

text \<open>\<open>sep.join(xs)\<close>.\<close>

fun join :: "string \<Rightarrow> string list \<Rightarrow> string" where
  "join sep [] = []"
| "join sep [x] = x"
| "join sep (x # y # ys) = x @ sep @ join sep (y # ys)"

text \<open>
  Every \<open>raise ValueError(...)\<close> of the source is a value of \<open>error\<close>; the
  constructor tells which raise it was and carries the message of the exception.
  \<open>BackendError\<close> stands for what the connection raises.
\<close>

datatype error =
    UnsupportedTypeError string
  | FormatError string
  | ConfigError string
  | UnsupportedDatabaseError string
  | BackendError string

section \<open>Cast resolver: \<open>_get_cast_expression_for_sql_expr\<close>\<close>

definition valid_types :: "string list" where
  "valid_types =
     [''STRING'', ''VARCHAR'',
      ''FLOAT64'', ''DOUBLE'', ''FLOAT'',
      ''BOOL'', ''BOOLEAN'',
      ''DATE'',
      ''TIMESTAMP'',
      ''INT64'', ''INTEGER'', ''BIGINT'', ''INT'', ''SMALLINT'', ''TINYINT'',
      ''BYTES'',
      ''NUMERIC'', ''DECIMAL'',
      ''BIGNUMERIC'',
      ''JSON'',
      ''TIME'']"

text \<open>The dictionary \<open>mapping\<close> of the source, in its order.\<close>

definition mapping :: "(string \<times> string) list" where
  "mapping =
     [(''TEXT'', ''STRING''),
      (''INT'', ''INT64''),
      (''INTEGER'', ''INT64''),
      (''BIGINT'', ''INT64''),
      (''DOUBLE'', ''FLOAT64''),
      (''BOOLEAN'', ''BOOL''),
      (''DECIMAL'', ''NUMERIC'')]"

text \<open>\<open>mapping.get(t, t)\<close>.\<close>

definition mapping_get :: "string \<Rightarrow> string" where
  "mapping_get t = (case map_of mapping t of Some u \<Rightarrow> u | None \<Rightarrow> t)"

definition unsupported_cast_message :: "string \<Rightarrow> string \<Rightarrow> string" where
  "unsupported_cast_message cast_type normalized_cast_type =
     ''Unsupported cast type: '' @ [CHR 0x27] @ cast_type @ [CHR 0x27] @
     ''. Normalized to '' @ [CHR 0x27] @ normalized_cast_type @ [CHR 0x27] @ ''. '' @
     ''Supported/checked types are: '' @ join '', '' valid_types"

definition get_cast_expression_for_sql_expr ::
  "(string \<Rightarrow> string) \<Rightarrow> string \<Rightarrow> string \<Rightarrow> error + string" where
  "get_cast_expression_for_sql_expr upper sql_expression_to_cast cast_type =
     (let normalized_cast_type = upper cast_type in
      if normalized_cast_type \<notin> set valid_types then
        (let normalized_cast_type = mapping_get normalized_cast_type in
         if normalized_cast_type \<notin> set valid_types then
           Inl (UnsupportedTypeError (unsupported_cast_message cast_type normalized_cast_type))
         else Inr (''CAST('' @ sql_expression_to_cast @ '' AS '' @ normalized_cast_type @ '')''))
      else Inr (''CAST('' @ sql_expression_to_cast @ '' AS '' @ normalized_cast_type @ '')''))"

text \<open>
  The cast resolver as the specification words it: the type name is uppercased, the
  seven synonyms are replaced by their canonical names, and the result is accepted
  when it belongs to the supported set of eleven names.
\<close>

definition spec_supported_set :: "string list" where
  "spec_supported_set =
     [''STRING'', ''FLOAT64'', ''BOOL'', ''DATE'', ''TIMESTAMP'', ''INT64'', ''BYTES'',
      ''NUMERIC'', ''BIGNUMERIC'', ''JSON'', ''TIME'']"

definition spec_normalize :: "(string \<Rightarrow> string) \<Rightarrow> string \<Rightarrow> string" where
  "spec_normalize upper cast_type = mapping_get (upper cast_type)"

section \<open>Dialect adapter\<close>

text \<open>\<open>_quote_identifier\<close>: double quotes for DuckDB, backticks for BigQuery, and
  the identifier itself for any other \<open>db_type\<close>.\<close>

definition quote_identifier :: "string \<Rightarrow> string \<Rightarrow> string" where
  "quote_identifier identifier db_type =
     (if db_type = ''duckdb'' then [CHR 0x22] @ identifier @ [CHR 0x22]
      else if db_type = ''bigquery'' then [CHR 0x60] @ identifier @ [CHR 0x60]
      else identifier)"

text \<open>\<open>s.split(c)\<close> for a one-character separator: the result is never empty, and
  an empty field is kept.\<close>

fun split :: "char \<Rightarrow> string \<Rightarrow> string list" where
  "split c [] = [[]]"
| "split c (x # xs) =
     (if x = c then [] # split c xs
      else (case split c xs of [] \<Rightarrow> [[x]] | p # ps \<Rightarrow> (x # p) # ps))"

text \<open>\<open>_parse_bigquery_table_name\<close>.  \<open>client_project\<close> is \<open>Optional[str]\<close>;
  \<open>not client_project\<close> holds for \<open>None\<close> and for the empty string.\<close>

definition missing_project_message :: "string \<Rightarrow> string" where
  "missing_project_message table_name =
     ''Table name '' @ [CHR 0x27] @ table_name @ [CHR 0x27] @
     '' is missing project ID, and BigQuery client has no default project. '' @
     ''Provide full name as '' @ [CHR 0x27] @ ''project.dataset.table'' @ [CHR 0x27] @
     '' or ensure client is initialized with a project.''"

definition invalid_format_message :: "string \<Rightarrow> string" where
  "invalid_format_message table_name =
     ''Invalid BigQuery table name format: '' @ [CHR 0x27] @ table_name @ [CHR 0x27] @
     ''. Expected [project.]dataset.table or dataset.table''"

definition parse_bigquery_table_name :: "string \<Rightarrow> string option \<Rightarrow> error + string" where
  "parse_bigquery_table_name table_name client_project =
     (let parts = split CHR ''.'' table_name in
      if length parts = 3 then Inr table_name
      else if length parts = 2 then
        (case client_project of
           None \<Rightarrow> Inl (FormatError (missing_project_message table_name))
         | Some project \<Rightarrow>
             if project = [] then Inl (FormatError (missing_project_message table_name))
             else Inr (project @ ''.'' @ parts ! 0 @ ''.'' @ parts ! 1))
      else Inl (FormatError (invalid_format_message table_name)))"

text \<open>The local function \<open>quote_duckdb_name\<close> of \<open>compare_tables_internal\<close>.\<close>

definition quote_duckdb_name :: "string \<Rightarrow> string" where
  "quote_duckdb_name name =
     (if CHR ''.'' \<in> set name
      then join ''.'' (map (\<lambda>part. [CHR 0x22] @ part @ [CHR 0x22]) (split CHR ''.'' name))
      else [CHR 0x22] @ name @ [CHR 0x22])"

section \<open>Query builder\<close>

text \<open>\<open>_build_select_expression\<close>.  The dictionary \<open>scalar_casts\<close> is a map from
  column names to type names; it is only looked up, never iterated.\<close>

definition build_select_expression ::
  "(string \<Rightarrow> string) \<Rightarrow> string \<Rightarrow> string \<Rightarrow> (string \<rightharpoonup> string) \<Rightarrow> string \<Rightarrow>
   error + string" where
  "build_select_expression upper col table_alias_in_cte_from scalar_casts db_type =
     (let source_col_ref = table_alias_in_cte_from @ ''.'' @ quote_identifier col db_type;
          output_alias_for_cte = quote_identifier (table_alias_in_cte_from @ ''_'' @ col) db_type
      in case scalar_casts col of
           Some cast_type \<Rightarrow>
             (case get_cast_expression_for_sql_expr upper source_col_ref cast_type of
                Inl e \<Rightarrow> Inl e
              | Inr final_value_expression_for_select \<Rightarrow>
                  Inr (final_value_expression_for_select @ '' AS '' @ output_alias_for_cte))
         | None \<Rightarrow> Inr (source_col_ref @ '' AS '' @ output_alias_for_cte))"

text \<open>A list comprehension whose elements may raise: the first exception ends it.\<close>

fun collect :: "('a \<Rightarrow> error + 'b) \<Rightarrow> 'a list \<Rightarrow> error + 'b list" where
  "collect f [] = Inr []"
| "collect f (x # xs) =
     (case f x of
        Inl e \<Rightarrow> Inl e
      | Inr y \<Rightarrow> (case collect f xs of Inl e \<Rightarrow> Inl e | Inr ys \<Rightarrow> Inr (y # ys)))"

text \<open>\<open>str(n)\<close> for a Python integer.\<close>

fun str_of_nat :: "nat \<Rightarrow> string" where
  "str_of_nat n =
     (if n < 10 then [char_of (48 + n)] else str_of_nat (n div 10) @ [char_of (48 + n mod 10)])"

definition str_of_int :: "int \<Rightarrow> string" where
  "str_of_int i = (if i < 0 then ''-'' @ str_of_nat (nat (- i)) else str_of_nat (nat i))"

text \<open>
  \<open>list(set(t1_cols_list).intersection(set(t2_cols_list)))\<close> lists the common columns
  once each, in the iteration order of a Python set, which the program does not
  control.  The functions below take that list as the argument \<open>common_schema_cols\<close>;
  \<open>is_common_schema_cols\<close> says what the source guarantees about it, and
  \<open>common_schema_cols_of\<close> is one such list.
\<close>

definition is_common_schema_cols :: "string list \<Rightarrow> string list \<Rightarrow> string list \<Rightarrow> bool" where
  "is_common_schema_cols t1_cols_list t2_cols_list common_schema_cols \<longleftrightarrow>
     distinct common_schema_cols \<and>
     set common_schema_cols = set t1_cols_list \<inter> set t2_cols_list"

definition common_schema_cols_of :: "string list \<Rightarrow> string list \<Rightarrow> string list" where
  "common_schema_cols_of t1_cols_list t2_cols_list =
     remdups (filter (\<lambda>col. col \<in> set t2_cols_list) t1_cols_list)"

text \<open>\<open>compare_cols\<close> (line 261): \<open>sorted\<close> on strings is the lexicographic order
  of the code points.\<close>

definition compare_cols_of :: "string list \<Rightarrow> string list \<Rightarrow> string list \<Rightarrow> string list" where
  "compare_cols_of common_schema_cols pk_cols ignore_cols =
     sort (filter (\<lambda>col. col \<notin> set pk_cols \<and> col \<notin> set ignore_cols) common_schema_cols)"

definition pk_not_common_message :: "string \<Rightarrow> string" where
  "pk_not_common_message pk_col =
     ''Primary key column '' @ [CHR 0x27] @ pk_col @ [CHR 0x27] @
     '' not found as a common column in both tables.''"

text \<open>Lines 253 to 259: the checks on the primary key.\<close>

definition validate_pk_cols :: "string list \<Rightarrow> string list \<Rightarrow> error + unit" where
  "validate_pk_cols common_schema_cols pk_cols =
     (if pk_cols = [] then
        Inl (ConfigError ''Primary key columns (--pk-cols) must be specified and not empty.'')
      else
        (case find (\<lambda>pk_col. pk_col \<notin> set common_schema_cols) pk_cols of
           Some pk_col \<Rightarrow> Inl (ConfigError (pk_not_common_message pk_col))
         | None \<Rightarrow> Inr ()))"

definition join_on_pks :: "string \<Rightarrow> string list \<Rightarrow> string" where
  "join_on_pks db_type pk_cols =
     join '' AND ''
       (map (\<lambda>pk. ''t1.'' @ quote_identifier (''t1_'' @ pk) db_type @ '' = '' @
                   ''t2.'' @ quote_identifier (''t2_'' @ pk) db_type) pk_cols)"

definition diff_condition :: "string \<Rightarrow> string \<Rightarrow> string" where
  "diff_condition db_type col =
     (let t1_col_ref_in_cte = quote_identifier (''t1_'' @ col) db_type;
          t2_col_ref_in_cte = quote_identifier (''t2_'' @ col) db_type
      in ''t1.'' @ t1_col_ref_in_cte @ '' IS DISTINCT FROM t2.'' @ t2_col_ref_in_cte)"

definition diff_conditions_list :: "string \<Rightarrow> string list \<Rightarrow> string list" where
  "diff_conditions_list db_type compare_cols = map (diff_condition db_type) compare_cols"

definition t1_only_conditions :: "string \<Rightarrow> string list \<Rightarrow> string" where
  "t1_only_conditions db_type pk_cols =
     join '' AND ''
       (map (\<lambda>pk. ''t2.'' @ quote_identifier (''t2_'' @ pk) db_type @ '' IS NULL'') pk_cols)"

definition t2_only_conditions :: "string \<Rightarrow> string list \<Rightarrow> string" where
  "t2_only_conditions db_type pk_cols =
     join '' AND ''
       (map (\<lambda>pk. ''t1.'' @ quote_identifier (''t1_'' @ pk) db_type @ '' IS NULL'') pk_cols)"

definition where_parts :: "string \<Rightarrow> string list \<Rightarrow> string list \<Rightarrow> string list" where
  "where_parts db_type pk_cols compare_cols =
     (if diff_conditions_list db_type compare_cols \<noteq> []
      then [''('' @ join '' OR '' (diff_conditions_list db_type compare_cols) @ '')'']
      else []) @
     (if pk_cols \<noteq> []
      then [''('' @ t1_only_conditions db_type pk_cols @ '')'',
            ''('' @ t2_only_conditions db_type pk_cols @ '')'']
      else [])"

definition where_clause :: "string \<Rightarrow> string list \<Rightarrow> string list \<Rightarrow> string" where
  "where_clause db_type pk_cols compare_cols =
     (if where_parts db_type pk_cols compare_cols = [] then ''1=0''
      else join '' OR '' (where_parts db_type pk_cols compare_cols))"

definition coalesced_pk_selects :: "string \<Rightarrow> string list \<Rightarrow> string list" where
  "coalesced_pk_selects db_type pk_cols =
     map (\<lambda>pk. ''COALESCE(t1.'' @ quote_identifier (''t1_'' @ pk) db_type @ '', t2.'' @
                quote_identifier (''t2_'' @ pk) db_type @ '') AS '' @
                quote_identifier pk db_type) pk_cols"

text \<open>The text of the f-string of lines 311 to 325, with its line breaks and its
  indentation.\<close>

definition nl :: string where
  "nl = [CHR 0x0A]"

definition query_text ::
  "string list \<Rightarrow> string list \<Rightarrow> string \<Rightarrow> string \<Rightarrow> string list \<Rightarrow> string \<Rightarrow> string \<Rightarrow> string" where
  "query_text t1_select_exprs_for_cte t2_select_exprs_for_cte table1_sql_ref table2_sql_ref
       coalesced join_on where_cl =
     nl @ ''    WITH table1_prepared AS ('' @
     nl @ ''        SELECT '' @ join '', '' t1_select_exprs_for_cte @
            '' FROM '' @ table1_sql_ref @ '' t1'' @
     nl @ ''    ),'' @
     nl @ ''    table2_prepared AS ('' @
     nl @ ''        SELECT '' @ join '', '' t2_select_exprs_for_cte @
            '' FROM '' @ table2_sql_ref @ '' t2'' @
     nl @ ''    )'' @
     nl @ ''    SELECT'' @
     nl @ ''        '' @ join '', '' coalesced @ '','' @
     nl @ ''        t1.*, '' @
     nl @ ''        t2.*  '' @
     nl @ ''    FROM table1_prepared t1'' @
     nl @ ''    FULL OUTER JOIN table2_prepared t2 ON '' @ join_on @
     nl @ ''    WHERE '' @ where_cl @
     nl @ ''    ''"

text \<open>
  Lines 253 to 328 of \<open>compare_tables_internal\<close>: from the column lists of the two
  tables to the text of the comparison query.  The two warnings printed to the
  standard error stream when \<open>compare_cols\<close> is empty change no value and are left
  out.
\<close>

definition build_comparison_query ::
  "(string \<Rightarrow> string) \<Rightarrow> string \<Rightarrow> string \<Rightarrow> string \<Rightarrow> string list \<Rightarrow> string list \<Rightarrow>
   string list \<Rightarrow> (string \<rightharpoonup> string) \<Rightarrow> int option \<Rightarrow> error + string" where
  "build_comparison_query upper db_type table1_sql_ref table2_sql_ref common_schema_cols
       pk_cols ignore_cols scalar_casts limit =
     (case validate_pk_cols common_schema_cols pk_cols of
        Inl e \<Rightarrow> Inl e
      | Inr _ \<Rightarrow>
     (let compare_cols = compare_cols_of common_schema_cols pk_cols ignore_cols in
      case collect (\<lambda>col. build_select_expression upper col ''t1'' scalar_casts db_type)
             (pk_cols @ compare_cols) of
        Inl e \<Rightarrow> Inl e
      | Inr t1_select_exprs_for_cte \<Rightarrow>
     (case collect (\<lambda>col. build_select_expression upper col ''t2'' scalar_casts db_type)
             (pk_cols @ compare_cols) of
        Inl e \<Rightarrow> Inl e
      | Inr t2_select_exprs_for_cte \<Rightarrow>
     (let query = query_text t1_select_exprs_for_cte t2_select_exprs_for_cte
                    table1_sql_ref table2_sql_ref (coalesced_pk_selects db_type pk_cols)
                    (join_on_pks db_type pk_cols) (where_clause db_type pk_cols compare_cols)
      in case limit of
           None \<Rightarrow> Inr query
         | Some n \<Rightarrow> Inr (query @ '' LIMIT '' @ str_of_int n)))))"

section \<open>Result reconciler\<close>

text \<open>
  A value of a result row is \<open>None\<close> (Python's \<open>None\<close>, the SQL null) or
  \<open>Some v\<close> for a value \<open>v\<close> of the backend.  The program compares and converts
  such values with Python's dynamic operations; the model takes them as the record
  \<open>ops\<close>: \<open>value_ne v w\<close> is \<open>v != w\<close> for two values other than \<open>None\<close>,
  \<open>value_is_primitive v\<close> is \<open>isinstance(v, (str, int, float, bool))\<close> and
  \<open>value_str v\<close> is \<open>str(v)\<close>.  \<open>None != None\<close> is false, and \<open>None\<close> differs
  from every other value.
\<close>

record 'v value_ops =
  value_ne :: "'v \<Rightarrow> 'v \<Rightarrow> bool"
  value_is_primitive :: "'v \<Rightarrow> bool"
  value_str :: "'v \<Rightarrow> 'v"

fun py_ne :: "'v value_ops \<Rightarrow> 'v option \<Rightarrow> 'v option \<Rightarrow> bool" where
  "py_ne ops None None = False"
| "py_ne ops (Some v) (Some w) = value_ne ops v w"
| "py_ne ops _ _ = True"

text \<open>Lines 371 to 375: for BigQuery a value that is neither primitive nor \<open>None\<close>
  is replaced by its string form.\<close>

definition coerce :: "'v value_ops \<Rightarrow> string \<Rightarrow> 'v option \<Rightarrow> 'v option" where
  "coerce ops db_type val =
     (if db_type = ''bigquery'' then
        (case val of
           None \<Rightarrow> None
         | Some v \<Rightarrow> if \<not> value_is_primitive ops v then Some (value_str ops v) else Some v)
      else val)"

text \<open>
  Dictionaries are association lists in insertion order: \<open>d[k] = v\<close> is
  \<open>AList.update k v d\<close>, which replaces the value of a key that is present and appends
  a new key at the end.  \<open>dict(pairs)\<close> stores the pairs one after the other, so the
  last value of a repeated key stays.  \<open>d.get(k)\<close> on a row is \<open>None\<close> for a
  missing key and for a key whose value is \<open>None\<close>.
\<close>

definition dict_of :: "('k \<times> 'a) list \<Rightarrow> ('k \<times> 'a) list" where
  "dict_of pairs = fold (\<lambda>(k, v) d. AList.update k v d) pairs []"

definition dict_get :: "(string \<times> 'v option) list \<Rightarrow> string \<Rightarrow> 'v option" where
  "dict_get row_dict k = (case map_of row_dict k of Some v \<Rightarrow> v | None \<Rightarrow> None)"

text \<open>The entries of \<open>diff_details\<close> are two-element lists; the entry under
  \<open>_status\<close> is a string.  An emitted \<open>diff_entry\<close> maps the primary-key columns to
  their values and \<open>diffs\<close> to the dictionary of differences.\<close>

datatype 'v diff_value = ValuePair "'v option" "'v option" | Status string

datatype 'v entry_value = Value "'v option" | Diffs "(string \<times> 'v diff_value) list"

type_synonym 'v diff_entry = "(string \<times> 'v entry_value) list"

definition is_t1_only :: "string list \<Rightarrow> (string \<times> 'v option) list \<Rightarrow> bool" where
  "is_t1_only pk_cols row_dict \<longleftrightarrow>
     list_all (\<lambda>pk. dict_get row_dict (''t2_'' @ pk) = None) pk_cols \<and>
     list_ex (\<lambda>pk. dict_get row_dict (''t1_'' @ pk) \<noteq> None) pk_cols"

definition is_t2_only :: "string list \<Rightarrow> (string \<times> 'v option) list \<Rightarrow> bool" where
  "is_t2_only pk_cols row_dict \<longleftrightarrow>
     list_all (\<lambda>pk. dict_get row_dict (''t1_'' @ pk) = None) pk_cols \<and>
     list_ex (\<lambda>pk. dict_get row_dict (''t2_'' @ pk) \<noteq> None) pk_cols"

text \<open>One iteration of the loop of lines 367 to 379, on the pair
  \<open>(diff_details, has_value_diff)\<close>.\<close>

definition value_diff_step ::
  "'v value_ops \<Rightarrow> string \<Rightarrow> (string \<times> 'v option) list \<Rightarrow> string \<Rightarrow>
   (string \<times> 'v diff_value) list \<times> bool \<Rightarrow> (string \<times> 'v diff_value) list \<times> bool" where
  "value_diff_step ops db_type row_dict col st =
     (let val1 = coerce ops db_type (dict_get row_dict (''t1_'' @ col));
          val2 = coerce ops db_type (dict_get row_dict (''t2_'' @ col))
      in if py_ne ops val1 val2 then (AList.update col (ValuePair val1 val2) (fst st), True)
         else st)"

text \<open>Lines 351 to 381: \<open>diff_details\<close> and \<open>status_indicators\<close> of a row.\<close>

definition row_details ::
  "'v value_ops \<Rightarrow> string \<Rightarrow> string list \<Rightarrow> string list \<Rightarrow> (string \<times> 'v option) list \<Rightarrow>
   (string \<times> 'v diff_value) list \<times> string list" where
  "row_details ops db_type pk_cols compare_cols row_dict =
     (if is_t1_only pk_cols row_dict then
        (fold (\<lambda>col. AList.update col (ValuePair (dict_get row_dict (''t1_'' @ col)) None))
           compare_cols [],
         [''present_in_table1_only''])
      else if is_t2_only pk_cols row_dict then
        (fold (\<lambda>col. AList.update col (ValuePair None (dict_get row_dict (''t2_'' @ col))))
           compare_cols [],
         [''present_in_table2_only''])
      else
        (let (diff_details, has_value_diff) =
               fold (value_diff_step ops db_type row_dict) compare_cols ([], False)
         in (diff_details, if has_value_diff then [''value_differences''] else [])))"

text \<open>Lines 383 to 387: whether the row is reported, and the dictionary stored under
  \<open>diffs\<close>.\<close>

definition is_emitted :: "(string \<times> 'v diff_value) list \<times> string list \<Rightarrow> bool" where
  "is_emitted details \<longleftrightarrow>
     fst details \<noteq> [] \<or> ''present_in_table1_only'' \<in> set (snd details) \<or>
     ''present_in_table2_only'' \<in> set (snd details)"

definition emitted_diffs ::
  "(string \<times> 'v diff_value) list \<times> string list \<Rightarrow> (string \<times> 'v diff_value) list" where
  "emitted_diffs details =
     (if snd details \<noteq> [] then AList.update ''_status'' (Status (join '','' (snd details))) (fst details)
      else fst details)"

text \<open>The body of the loop over the result rows (lines 346 to 387): the entry
  appended to \<open>output_diffs\<close>, if any.\<close>

definition reconcile_row ::
  "'v value_ops \<Rightarrow> string \<Rightarrow> string list \<Rightarrow> string list \<Rightarrow> string list \<Rightarrow> 'v option list \<Rightarrow>
   'v diff_entry option" where
  "reconcile_row ops db_type pk_cols compare_cols final_column_names row_tuple =
     (let row_dict = dict_of (zip final_column_names row_tuple);
          diff_entry = dict_of (map (\<lambda>pk. (pk, Value (dict_get row_dict pk))) pk_cols);
          details = row_details ops db_type pk_cols compare_cols row_dict
      in if is_emitted details
         then Some (AList.update ''diffs'' (Diffs (emitted_diffs details)) diff_entry)
         else None)"

fun reconcile ::
  "'v value_ops \<Rightarrow> string \<Rightarrow> string list \<Rightarrow> string list \<Rightarrow> string list \<Rightarrow> 'v option list list \<Rightarrow>
   'v diff_entry list" where
  "reconcile ops db_type pk_cols compare_cols final_column_names [] = []"
| "reconcile ops db_type pk_cols compare_cols final_column_names (row_tuple # rows) =
     (case reconcile_row ops db_type pk_cols compare_cols final_column_names row_tuple of
        None \<Rightarrow> reconcile ops db_type pk_cols compare_cols final_column_names rows
      | Some diff_entry \<Rightarrow>
          diff_entry # reconcile ops db_type pk_cols compare_cols final_column_names rows)"

text \<open>What an emitted entry holds under \<open>diffs\<close>, and the status read from it.\<close>

definition entry_diffs :: "'v diff_entry \<Rightarrow> (string \<times> 'v diff_value) list" where
  "entry_diffs diff_entry =
     (case map_of diff_entry ''diffs'' of Some (Diffs d) \<Rightarrow> d | _ \<Rightarrow> [])"

definition entry_status :: "'v diff_entry \<Rightarrow> string option" where
  "entry_status diff_entry =
     (case map_of (entry_diffs diff_entry) ''_status'' of Some (Status s) \<Rightarrow> Some s | _ \<Rightarrow> None)"

section \<open>The whole comparison: \<open>compare_tables_internal\<close>\<close>

text \<open>
  The connection is outside the program.  The model takes what the program asks of
  it: the default project of a BigQuery client, the column names of a table
  (\<open>_get_duckdb_table_columns\<close>, \<open>_get_bigquery_table_columns\<close>) and the execution of
  a query, which returns the column names of the result and its rows.  \<open>listing\<close> is
  the iteration order of the set of the common columns and \<open>upper\<close> is
  \<open>str.upper\<close>.
\<close>

record 'v connection =
  project :: "string option"
  table_columns :: "string \<Rightarrow> error + string list"
  run_query :: "string \<Rightarrow> error + (string list \<times> 'v option list list)"

text \<open>Lines 231 to 251: the column lists and the SQL references of the two tables.\<close>

definition resolve_tables ::
  "string \<Rightarrow> 'v connection \<Rightarrow> string \<Rightarrow> string \<Rightarrow>
   error + (string list \<times> string list \<times> string \<times> string)" where
  "resolve_tables db_type conn table1_name table2_name =
     (if db_type = ''duckdb'' then
        (case table_columns conn table1_name of Inl e \<Rightarrow> Inl e | Inr t1_cols_list \<Rightarrow>
         case table_columns conn table2_name of Inl e \<Rightarrow> Inl e | Inr t2_cols_list \<Rightarrow>
           Inr (t1_cols_list, t2_cols_list,
                quote_duckdb_name table1_name, quote_duckdb_name table2_name))
      else if db_type = ''bigquery'' then
        (case parse_bigquery_table_name table1_name (project conn) of
           Inl e \<Rightarrow> Inl e | Inr t1_full_ref \<Rightarrow>
         case parse_bigquery_table_name table2_name (project conn) of
           Inl e \<Rightarrow> Inl e | Inr t2_full_ref \<Rightarrow>
         case table_columns conn t1_full_ref of Inl e \<Rightarrow> Inl e | Inr t1_cols_list \<Rightarrow>
         case table_columns conn t2_full_ref of Inl e \<Rightarrow> Inl e | Inr t2_cols_list \<Rightarrow>
           Inr (t1_cols_list, t2_cols_list,
                [CHR 0x60] @ t1_full_ref @ [CHR 0x60], [CHR 0x60] @ t2_full_ref @ [CHR 0x60]))
      else Inl (UnsupportedDatabaseError (''Unsupported database type: '' @ db_type)))"

definition compare_tables_internal ::
  "'v value_ops \<Rightarrow> (string list \<Rightarrow> string list \<Rightarrow> string list) \<Rightarrow> (string \<Rightarrow> string) \<Rightarrow>
   string \<Rightarrow> 'v connection \<Rightarrow>
   string \<Rightarrow> string \<Rightarrow> string list \<Rightarrow> string list \<Rightarrow> (string \<rightharpoonup> string) \<Rightarrow> int option \<Rightarrow>
   error + 'v diff_entry list" where
  "compare_tables_internal ops listing upper db_type conn table1_name table2_name
       pk_cols ignore_cols scalar_casts limit =
     (case resolve_tables db_type conn table1_name table2_name of
        Inl e \<Rightarrow> Inl e
      | Inr (t1_cols_list, t2_cols_list, table1_sql_ref, table2_sql_ref) \<Rightarrow>
     (let common_schema_cols = listing t1_cols_list t2_cols_list in
      case build_comparison_query upper db_type table1_sql_ref table2_sql_ref common_schema_cols
             pk_cols ignore_cols scalar_casts limit of
        Inl e \<Rightarrow> Inl e
      | Inr query \<Rightarrow>
     (case run_query conn query of
        Inl e \<Rightarrow> Inl e
      | Inr (final_column_names, results_iter) \<Rightarrow>
          Inr (reconcile ops db_type pk_cols
                 (compare_cols_of common_schema_cols pk_cols ignore_cols)
                 final_column_names results_iter))))"

text \<open>The test \<open>val1 != val2\<close> of line 377 for a column, on the values as lines
  368 to 375 prepare them.\<close>

definition differs :: "'v value_ops \<Rightarrow> string \<Rightarrow> (string \<times> 'v option) list \<Rightarrow> string \<Rightarrow> bool" where
  "differs ops db_type row_dict col \<longleftrightarrow>
     py_ne ops (coerce ops db_type (dict_get row_dict (''t1_'' @ col)))
               (coerce ops db_type (dict_get row_dict (''t2_'' @ col)))"

text \<open>A concrete value type for the examples: integers, all of them primitive,
  compared by equality.\<close>

definition int_value_ops :: "int value_ops" where
  "int_value_ops =
     \<lparr>value_ne = (\<lambda>v w. v \<noteq> w), value_is_primitive = (\<lambda>v. True), value_str = (\<lambda>v. v)\<rparr>"

section \<open>Properties of the cast resolver\<close>

lemma of_char_ascii_upper_char:
  "(of_char (ascii_upper_char c) :: nat) =
     (if 97 \<le> (of_char c :: nat) \<and> (of_char c :: nat) \<le> 122 then of_char c - 32 else of_char c)"
  by (cases c) (auto simp: ascii_upper_char_def less_eq_char_def)

lemma ascii_upper_examples:
  "ascii_upper ''int'' = ''INT''" "ascii_upper ''INT'' = ''INT''"
  "ascii_upper ''Integer'' = ''INTEGER''" "ascii_upper ''text'' = ''TEXT''"
  "ascii_upper ''VARCHAR'' = ''VARCHAR''" "ascii_upper ''frobnicate'' = ''FROBNICATE''"
  by (simp_all add: ascii_upper_def ascii_upper_char_def)

lemma upper_on_ascii_ascii_upper: "upper_on_ascii ascii_upper"
  by (simp add: upper_on_ascii_def)

lemma upper_on_ascii_examples:
  assumes "upper_on_ascii upper"
  shows "upper ''int'' = ''INT''" "upper ''INT'' = ''INT''" "upper ''Integer'' = ''INTEGER''"
    "upper ''frobnicate'' = ''FROBNICATE''"
proof -
  have a: "is_ascii ''int''" "is_ascii ''INT''" "is_ascii ''Integer''" "is_ascii ''frobnicate''"
    by (simp_all add: is_ascii_def)
  from assms a show "upper ''int'' = ''INT''" "upper ''INT'' = ''INT''"
    "upper ''Integer'' = ''INTEGER''" "upper ''frobnicate'' = ''FROBNICATE''"
    by (simp_all add: upper_on_ascii_def ascii_upper_examples)
qed

text \<open>Every synonym of the table except \<open>TEXT\<close> is itself an accepted name, and every
  target of the table is accepted.\<close>

lemma mapping_get_valid:
  "u \<in> set valid_types \<Longrightarrow> mapping_get u \<in> set valid_types"
  by (auto simp: valid_types_def mapping_get_def mapping_def)

lemma mapping_get_cases:
  "mapping_get u = (if u = ''TEXT'' then ''STRING'' else u) \<or> u \<in> set valid_types"
  by (simp add: valid_types_def mapping_get_def mapping_def)

lemma mapping_get_invalid:
  "u \<notin> set valid_types \<Longrightarrow> mapping_get u = (if u = ''TEXT'' then ''STRING'' else u)"
  using mapping_get_cases [of u] by blast

lemma spec_supported_subset: "set spec_supported_set \<subseteq> set valid_types"
  by (simp add: spec_supported_set_def valid_types_def)

lemma cast_valid:
  "upper t \<in> set valid_types \<Longrightarrow>
   get_cast_expression_for_sql_expr upper x t =
     Inr (''CAST('' @ x @ '' AS '' @ upper t @ '')'')"
  by (simp add: get_cast_expression_for_sql_expr_def)

lemma cast_invalid:
  "upper t \<notin> set valid_types \<Longrightarrow>
   get_cast_expression_for_sql_expr upper x t =
     (if mapping_get (upper t) \<in> set valid_types
      then Inr (''CAST('' @ x @ '' AS '' @ mapping_get (upper t) @ '')'')
      else Inl (UnsupportedTypeError (unsupported_cast_message t (mapping_get (upper t)))))"
  by (simp add: get_cast_expression_for_sql_expr_def Let_def)

lemma cast_text:
  "upper t = ''TEXT'' \<Longrightarrow>
   get_cast_expression_for_sql_expr upper x t = Inr (''CAST('' @ x @ '' AS STRING)'')"
  by (simp add: get_cast_expression_for_sql_expr_def Let_def valid_types_def
      mapping_get_def mapping_def)

text \<open>
  Claim C1, as the code has it.  The requested type is uppercased by \<open>str.upper\<close>.
  An uppercased name that is in \<open>valid_types\<close> is used as it is, and
  \<open>valid_types\<close> holds \<open>INT\<close>, \<open>INTEGER\<close>, \<open>BIGINT\<close>, \<open>DOUBLE\<close>, \<open>BOOLEAN\<close> and
  \<open>DECIMAL\<close>; the synonym table is consulted only for a name outside
  \<open>valid_types\<close>, so \<open>TEXT\<close> is the one synonym that is rewritten (to \<open>STRING\<close>).
  For every source expression \<open>x\<close> the inputs \<open>int\<close> and \<open>INT\<close> give
  \<open>CAST(x AS INT)\<close> and \<open>Integer\<close> gives \<open>CAST(x AS INTEGER)\<close>.
\<close>

theorem cast_resolver_keeps_accepted_names:
  "get_cast_expression_for_sql_expr upper x t =
     (if upper t \<in> set valid_types then Inr (''CAST('' @ x @ '' AS '' @ upper t @ '')'')
      else if upper t = ''TEXT'' then Inr (''CAST('' @ x @ '' AS STRING)'')
      else Inl (UnsupportedTypeError (unsupported_cast_message t (upper t))))
   \<and> (upper_on_ascii upper \<longrightarrow>
        get_cast_expression_for_sql_expr upper x ''int'' = Inr (''CAST('' @ x @ '' AS INT)'') \<and>
        get_cast_expression_for_sql_expr upper x ''INT'' = Inr (''CAST('' @ x @ '' AS INT)'') \<and>
        get_cast_expression_for_sql_expr upper x ''Integer'' =
          Inr (''CAST('' @ x @ '' AS INTEGER)''))"
proof -
  have general: "get_cast_expression_for_sql_expr upper x t =
     (if upper t \<in> set valid_types then Inr (''CAST('' @ x @ '' AS '' @ upper t @ '')'')
      else if upper t = ''TEXT'' then Inr (''CAST('' @ x @ '' AS STRING)'')
      else Inl (UnsupportedTypeError (unsupported_cast_message t (upper t))))"
  proof (cases "upper t \<in> set valid_types")
    case True
    then show ?thesis by (simp add: cast_valid)
  next
    case False
    show ?thesis
    proof (cases "upper t = ''TEXT''")
      case True
      with False show ?thesis by (simp add: cast_text)
    next
      case notext: False
      from False notext have "mapping_get (upper t) = upper t"
        by (simp add: mapping_get_invalid)
      with False notext show ?thesis by (simp add: cast_invalid)
    qed
  qed
  have ascii: "upper_on_ascii upper \<longrightarrow>
        get_cast_expression_for_sql_expr upper x ''int'' = Inr (''CAST('' @ x @ '' AS INT)'') \<and>
        get_cast_expression_for_sql_expr upper x ''INT'' = Inr (''CAST('' @ x @ '' AS INT)'') \<and>
        get_cast_expression_for_sql_expr upper x ''Integer'' =
          Inr (''CAST('' @ x @ '' AS INTEGER)'')"
  proof
    assume u: "upper_on_ascii upper"
    have v: "''INT'' \<in> set valid_types" "''INTEGER'' \<in> set valid_types"
      by (simp_all add: valid_types_def)
    from v show "get_cast_expression_for_sql_expr upper x ''int'' = Inr (''CAST('' @ x @ '' AS INT)'') \<and>
        get_cast_expression_for_sql_expr upper x ''INT'' = Inr (''CAST('' @ x @ '' AS INT)'') \<and>
        get_cast_expression_for_sql_expr upper x ''Integer'' =
          Inr (''CAST('' @ x @ '' AS INTEGER)'')"
      by (simp add: cast_valid upper_on_ascii_examples [OF u])
  qed
  from general ascii show ?thesis by blast
qed

theorem cast_resolver_keeps_accepted_names_witness:
  "upper_on_ascii ascii_upper
   \<and> get_cast_expression_for_sql_expr ascii_upper ''t1.c'' ''text'' = Inr ''CAST(t1.c AS STRING)''
   \<and> get_cast_expression_for_sql_expr ascii_upper ''t1.c'' ''int'' = Inr ''CAST(t1.c AS INT)''
   \<and> get_cast_expression_for_sql_expr ascii_upper ''t1.c'' ''Integer'' =
       Inr ''CAST(t1.c AS INTEGER)''"
  using cast_resolver_keeps_accepted_names [of ascii_upper "''t1.c''" "''text''"]
    upper_on_ascii_ascii_upper
  by (simp add: ascii_upper_examples valid_types_def)

text \<open>C1 as stated fails.  On the ASCII inputs \<open>int\<close> and \<open>Integer\<close>, where
  \<open>str.upper\<close> is \<open>ascii_upper\<close>, the resolver does not give \<open>CAST(x AS INT64)\<close>,
  and it does not give the same text for both.\<close>

theorem cast_int_not_canonical:
  "get_cast_expression_for_sql_expr ascii_upper ''x'' ''int'' = Inr ''CAST(x AS INT)''
   \<and> get_cast_expression_for_sql_expr ascii_upper ''x'' ''Integer'' = Inr ''CAST(x AS INTEGER)''
   \<and> get_cast_expression_for_sql_expr ascii_upper ''x'' ''int'' \<noteq> Inr ''CAST(x AS INT64)''"
  by (simp add: get_cast_expression_for_sql_expr_def ascii_upper_examples valid_types_def)

text \<open>
  Claim C2, as the code has it.  A requested type whose uppercased, synonym-mapped
  form is not in \<open>valid_types\<close> (the eleven names of the specification and
  \<open>VARCHAR\<close>, \<open>DOUBLE\<close>, \<open>FLOAT\<close>, \<open>BOOLEAN\<close>, \<open>INTEGER\<close>, \<open>BIGINT\<close>, \<open>INT\<close>,
  \<open>SMALLINT\<close>, \<open>TINYINT\<close>, \<open>DECIMAL\<close>) is refused: the result is the error whose
  message names the input as it was given, its normalized form and the accepted
  names, and no CAST text is returned; a CAST text is returned exactly for the other
  requested types.  \<open>frobnicate\<close> is refused.
\<close>

theorem unsupported_type_fails:
  "(mapping_get (upper t) \<notin> set valid_types \<longrightarrow>
      get_cast_expression_for_sql_expr upper x t =
        Inl (UnsupportedTypeError
          (''Unsupported cast type: '' @ [CHR 0x27] @ t @ [CHR 0x27] @
           ''. Normalized to '' @ [CHR 0x27] @ mapping_get (upper t) @ [CHR 0x27] @ ''. '' @
           ''Supported/checked types are: '' @ join '', '' valid_types)) \<and>
      (\<forall>s. get_cast_expression_for_sql_expr upper x t \<noteq> Inr s))
   \<and> ((\<exists>s. get_cast_expression_for_sql_expr upper x t = Inr s) =
        (mapping_get (upper t) \<in> set valid_types))
   \<and> (upper_on_ascii upper \<longrightarrow>
        get_cast_expression_for_sql_expr upper x ''frobnicate'' =
          Inl (UnsupportedTypeError (unsupported_cast_message ''frobnicate'' ''FROBNICATE'')))"
proof -
  have refused: "mapping_get (upper t) \<notin> set valid_types \<Longrightarrow>
      get_cast_expression_for_sql_expr upper x t =
        Inl (UnsupportedTypeError (unsupported_cast_message t (mapping_get (upper t))))" for t
  proof -
    assume a: "mapping_get (upper t) \<notin> set valid_types"
    then have "upper t \<notin> set valid_types"
      using mapping_get_valid by blast
    with a show ?thesis by (simp add: cast_invalid)
  qed
  have accepted: "mapping_get (upper t) \<in> set valid_types \<Longrightarrow>
      \<exists>s. get_cast_expression_for_sql_expr upper x t = Inr s"
    by (cases "upper t \<in> set valid_types") (simp_all add: cast_valid cast_invalid)
  have first: "mapping_get (upper t) \<notin> set valid_types \<longrightarrow>
      get_cast_expression_for_sql_expr upper x t =
        Inl (UnsupportedTypeError
          (''Unsupported cast type: '' @ [CHR 0x27] @ t @ [CHR 0x27] @
           ''. Normalized to '' @ [CHR 0x27] @ mapping_get (upper t) @ [CHR 0x27] @ ''. '' @
           ''Supported/checked types are: '' @ join '', '' valid_types)) \<and>
      (\<forall>s. get_cast_expression_for_sql_expr upper x t \<noteq> Inr s)"
    using refused [of t] by (simp add: unsupported_cast_message_def)
  have second: "(\<exists>s. get_cast_expression_for_sql_expr upper x t = Inr s) =
        (mapping_get (upper t) \<in> set valid_types)"
  proof (cases "mapping_get (upper t) \<in> set valid_types")
    case True
    with accepted show ?thesis by simp
  next
    case False
    from refused [OF False] False show ?thesis by simp
  qed
  have third: "upper_on_ascii upper \<longrightarrow>
        get_cast_expression_for_sql_expr upper x ''frobnicate'' =
          Inl (UnsupportedTypeError (unsupported_cast_message ''frobnicate'' ''FROBNICATE''))"
  proof
    assume u: "upper_on_ascii upper"
    then have up: "upper ''frobnicate'' = ''FROBNICATE''" by (rule upper_on_ascii_examples)
    have "mapping_get ''FROBNICATE'' = ''FROBNICATE''"
      by (simp add: mapping_get_def mapping_def)
    moreover have "''FROBNICATE'' \<notin> set valid_types"
      by (simp add: valid_types_def)
    ultimately show "get_cast_expression_for_sql_expr upper x ''frobnicate'' =
          Inl (UnsupportedTypeError (unsupported_cast_message ''frobnicate'' ''FROBNICATE''))"
      using refused [of "''frobnicate''"] by (simp add: up)
  qed
  from first second third show ?thesis by blast
qed

theorem unsupported_type_fails_witness:
  "mapping_get (ascii_upper ''frobnicate'') \<notin> set valid_types
   \<and> upper_on_ascii ascii_upper
   \<and> get_cast_expression_for_sql_expr ascii_upper ''x'' ''frobnicate'' =
       Inl (UnsupportedTypeError (unsupported_cast_message ''frobnicate'' ''FROBNICATE''))"
proof -
  have h: "mapping_get (ascii_upper ''frobnicate'') \<notin> set valid_types"
    by (simp add: ascii_upper_examples mapping_get_def mapping_def valid_types_def)
  from unsupported_type_fails [of ascii_upper "''frobnicate''" "''x''"] h
    upper_on_ascii_ascii_upper
  show ?thesis by blast
qed

text \<open>C2 as stated fails.  \<open>VARCHAR\<close> is ASCII, so \<open>str.upper\<close> is \<open>ascii_upper\<close>
  on it; its normalized form is outside the supported set of the specification, and
  the resolver returns a CAST text for it.\<close>

theorem varchar_outside_spec_set_is_cast:
  "spec_normalize ascii_upper ''VARCHAR'' \<notin> set spec_supported_set
   \<and> get_cast_expression_for_sql_expr ascii_upper ''x'' ''VARCHAR'' = Inr ''CAST(x AS VARCHAR)''"
  by (simp add: spec_normalize_def ascii_upper_examples mapping_get_def mapping_def
      spec_supported_set_def get_cast_expression_for_sql_expr_def valid_types_def)

section \<open>Properties of the table-name qualification\<close>

lemma split_not_Nil: "split c s \<noteq> []"
  by (induction s) (auto split: list.splits)

lemma length_split: "length (split c s) = Suc (count_list s c)"
  by (induction s) (auto split: list.splits simp: split_not_Nil)

lemma join_split: "join [c] (split c s) = s"
proof (induction s)
  case Nil
  show ?case by simp
next
  case (Cons x xs)
  obtain p ps where sp: "split c xs = p # ps"
    using split_not_Nil [of c xs] by (cases "split c xs") auto
  with Cons show ?case by (cases ps) auto
qed

lemma two_parts:
  assumes "length (split c s) = 2"
  shows "split c s ! 0 @ [c] @ split c s ! 1 = s"
proof -
  from assms obtain p q where pq: "split c s = [p, q]"
    by (cases "split c s") (auto simp: length_Suc_conv)
  have "join [c] (split c s) = s" by (rule join_split)
  with pq show ?thesis by simp
qed

text \<open>
  Claim C8.  For the BigQuery dialect a name of three dot-separated parts is returned
  unchanged; a name of two parts is returned with the default project of the client
  and a dot put in front (project, dataset, table); a name of two parts with no default
  project (\<open>None\<close> or the empty string) and a name of any other number of parts
  fail with a format error.  The number of parts is the number of dots plus one.
\<close>

theorem parse_bigquery_table_name_cases:
  "(length (split CHR ''.'' name) = 3 \<longrightarrow> parse_bigquery_table_name name p = Inr name) \<and>
   (length (split CHR ''.'' name) = 2 \<and> p = Some proj \<and> proj \<noteq> [] \<longrightarrow>
      parse_bigquery_table_name name p = Inr (proj @ ''.'' @ name) \<and>
      proj @ ''.'' @ name =
        proj @ ''.'' @ split CHR ''.'' name ! 0 @ ''.'' @ split CHR ''.'' name ! 1) \<and>
   (length (split CHR ''.'' name) = 2 \<and> (p = None \<or> p = Some []) \<longrightarrow>
      parse_bigquery_table_name name p = Inl (FormatError (missing_project_message name))) \<and>
   (length (split CHR ''.'' name) \<noteq> 2 \<and> length (split CHR ''.'' name) \<noteq> 3 \<longrightarrow>
      parse_bigquery_table_name name p = Inl (FormatError (invalid_format_message name))) \<and>
   length (split CHR ''.'' name) = Suc (count_list name CHR ''.'')"
proof -
  have two: "length (split CHR ''.'' name) = 2 \<Longrightarrow>
      split CHR ''.'' name ! 0 @ ''.'' @ split CHR ''.'' name ! 1 = name"
    using two_parts [of "CHR ''.''" name] by simp
  show ?thesis
    using two by (auto simp: parse_bigquery_table_name_def Let_def length_split)
qed

theorem parse_bigquery_table_name_cases_witness:
  "parse_bigquery_table_name ''p.d.t'' None = Inr ''p.d.t'' \<and>
   parse_bigquery_table_name ''d.t'' (Some ''proj'') = Inr ''proj.d.t'' \<and>
   (\<exists>msg. parse_bigquery_table_name ''d.t'' None = Inl (FormatError msg)) \<and>
   (\<exists>msg. parse_bigquery_table_name ''t'' (Some ''proj'') = Inl (FormatError msg)) \<and>
   (\<exists>msg. parse_bigquery_table_name ''a.b.c.d'' (Some ''proj'') = Inl (FormatError msg))"
  using parse_bigquery_table_name_cases [of "''p.d.t''" None "''proj''"]
    parse_bigquery_table_name_cases [of "''d.t''" "Some ''proj''" "''proj''"]
    parse_bigquery_table_name_cases [of "''d.t''" None "''proj''"]
    parse_bigquery_table_name_cases [of "''t''" "Some ''proj''" "''proj''"]
    parse_bigquery_table_name_cases [of "''a.b.c.d''" "Some ''proj''" "''proj''"]
  by simp

section \<open>Properties of the query builder\<close>

lemma common_schema_cols_of_ok: "is_common_schema_cols t1 t2 (common_schema_cols_of t1 t2)"
  by (auto simp: is_common_schema_cols_def common_schema_cols_of_def)


lemma validate_pk_cols_set:
  "set c1 = set c2 \<Longrightarrow> validate_pk_cols c1 pk_cols = validate_pk_cols c2 pk_cols"
  by (simp add: validate_pk_cols_def)

lemma validate_pk_cols_empty:
  "validate_pk_cols common [] =
     Inl (ConfigError ''Primary key columns (--pk-cols) must be specified and not empty.'')"
  by (simp add: validate_pk_cols_def)

lemma validate_pk_cols_not_common:
  assumes "pk \<in> set pk_cols" "pk \<notin> set common"
  shows "\<exists>bad. bad \<in> set pk_cols \<and> bad \<notin> set common \<and>
           validate_pk_cols common pk_cols = Inl (ConfigError (pk_not_common_message bad))"
proof -
  from assms have ne: "pk_cols \<noteq> []" by auto
  from assms have "find (\<lambda>pk_col. pk_col \<notin> set common) pk_cols \<noteq> None"
    by (auto simp: find_None_iff)
  then obtain bad where f: "find (\<lambda>pk_col. pk_col \<notin> set common) pk_cols = Some bad"
    by auto
  then have "bad \<in> set pk_cols \<and> bad \<notin> set common"
    by (auto simp: find_Some_iff)
  with f ne show ?thesis by (auto simp: validate_pk_cols_def)
qed

lemma validate_pk_cols_ok:
  "validate_pk_cols common pk_cols = Inr u \<longleftrightarrow> pk_cols \<noteq> [] \<and> set pk_cols \<subseteq> set common"
proof (cases "find (\<lambda>pk_col. pk_col \<notin> set common) pk_cols")
  case None
  then have "set pk_cols \<subseteq> set common" by (auto simp: find_None_iff)
  with None show ?thesis by (simp add: validate_pk_cols_def)
next
  case (Some bad)
  then have "bad \<in> set pk_cols \<and> bad \<notin> set common" by (auto simp: find_Some_iff)
  with Some show ?thesis by (auto simp: validate_pk_cols_def)
qed

lemma build_invalid_pk:
  "validate_pk_cols common pk_cols = Inl e \<Longrightarrow>
   build_comparison_query upper db r1 r2 common pk_cols ig casts limit = Inl e"
  by (simp add: build_comparison_query_def)

lemma compare_cols_sorted: "sorted (compare_cols_of common pk_cols ig)"
  by (simp add: compare_cols_of_def)

lemma compare_cols_distinct:
  "distinct common \<Longrightarrow> distinct (compare_cols_of common pk_cols ig)"
  by (simp add: compare_cols_of_def)

lemma compare_cols_set:
  "set (compare_cols_of common pk_cols ig) = set common - set pk_cols - set ig"
  by (auto simp: compare_cols_of_def)

lemma compare_cols_order_independent:
  assumes "distinct c1" "distinct c2" "set c1 = set c2"
  shows "compare_cols_of c1 pk_cols ig = compare_cols_of c2 pk_cols ig"
proof (rule sorted_distinct_set_unique)
  show "set (compare_cols_of c1 pk_cols ig) = set (compare_cols_of c2 pk_cols ig)"
    using assms(3) by (simp add: compare_cols_set)
qed (simp_all add: compare_cols_sorted compare_cols_distinct assms)

text \<open>
  Claim C6.  When \<open>pk_cols\<close> is empty or holds a column that is not common to the
  column lists of the two tables, the construction of the query fails with a
  configuration error and produces no query text, whatever the casts are (they are
  resolved later); and the whole comparison, once the column lists are fetched,
  returns that same error.
\<close>

theorem invalid_pk_cols_abort:
  assumes bad: "pk_cols = [] \<or> (\<exists>pk\<in>set pk_cols. pk \<notin> set t1 \<inter> set t2)"
    and common: "is_common_schema_cols t1 t2 common"
  shows "\<exists>msg.
     build_comparison_query upper db r1 r2 common pk_cols ig casts limit = Inl (ConfigError msg) \<and>
     (\<forall>ops listing conn n1 n2.
        resolve_tables db conn n1 n2 = Inr (t1, t2, r1, r2) \<and> listing t1 t2 = common \<longrightarrow>
        compare_tables_internal ops listing upper db conn n1 n2 pk_cols ig casts limit =
          Inl (ConfigError msg))"
proof -
  have "\<exists>msg. validate_pk_cols common pk_cols = Inl (ConfigError msg)"
  proof (cases "pk_cols = []")
    case True
    then show ?thesis by (simp add: validate_pk_cols_empty)
  next
    case False
    with bad obtain pk where "pk \<in> set pk_cols" "pk \<notin> set t1 \<inter> set t2" by blast
    with common have "pk \<in> set pk_cols" "pk \<notin> set common"
      by (simp_all add: is_common_schema_cols_def)
    from validate_pk_cols_not_common [OF this] show ?thesis by blast
  qed
  then obtain msg where v: "validate_pk_cols common pk_cols = Inl (ConfigError msg)" ..
  then have b: "build_comparison_query upper db r1 r2 common pk_cols ig casts limit = Inl (ConfigError msg)"
    by (rule build_invalid_pk)
  then show ?thesis
    by (auto simp: compare_tables_internal_def)
qed

theorem invalid_pk_cols_abort_witness:
  "\<exists>msg. compare_tables_internal int_value_ops common_schema_cols_of ascii_upper
      ''duckdb''
      \<lparr>project = None, table_columns = (\<lambda>name. Inr [''id'', ''name'']),
       run_query = (\<lambda>query. Inr ([], []))\<rparr>
      ''A'' ''B'' [''key''] [] Map.empty None = Inl (ConfigError msg)"
proof -
  let ?cols = "[''id'', ''name'']"
  let ?conn = "\<lparr>project = None, table_columns = (\<lambda>name. Inr ?cols),
       run_query = (\<lambda>query. Inr ([], []))\<rparr> :: int connection"
  have bad: "[''key''] = [] \<or> (\<exists>pk\<in>set [''key'']. pk \<notin> set ?cols \<inter> set ?cols)"
    by simp
  have common: "is_common_schema_cols ?cols ?cols (common_schema_cols_of ?cols ?cols)"
    by (rule common_schema_cols_of_ok)
  have res: "resolve_tables ''duckdb'' ?conn ''A'' ''B'' =
      Inr (?cols, ?cols, quote_duckdb_name ''A'', quote_duckdb_name ''B'')"
    by (simp add: resolve_tables_def)
  from invalid_pk_cols_abort [OF bad common, of ascii_upper "''duckdb''" "quote_duckdb_name ''A''"
      "quote_duckdb_name ''B''" "[]" Map.empty None]
  obtain msg where "\<forall>(ops :: int value_ops) listing conn n1 n2.
        resolve_tables ''duckdb'' conn n1 n2 =
          Inr (?cols, ?cols, quote_duckdb_name ''A'', quote_duckdb_name ''B'') \<and>
        listing ?cols ?cols = common_schema_cols_of ?cols ?cols \<longrightarrow>
        compare_tables_internal ops listing ascii_upper ''duckdb'' conn n1 n2 [''key''] [] Map.empty None =
          Inl (ConfigError msg :: error)"
    by blast
  with res have "compare_tables_internal int_value_ops common_schema_cols_of ascii_upper
      ''duckdb'' ?conn
      ''A'' ''B'' [''key''] [] Map.empty None = Inl (ConfigError msg)"
    by blast
  then show ?thesis ..
qed


text \<open>The text of a query that is built, written out: the select lists run over
  \<open>pk_cols\<close> followed by the compare columns in their sorted order, and so does the
  \<open>WHERE\<close> clause.\<close>

lemma build_comparison_query_text:
  assumes "build_comparison_query upper db r1 r2 common pk_cols ig casts limit = Inr q"
  shows "\<exists>e1 e2.
     collect (\<lambda>col. build_select_expression upper col ''t1'' casts db)
       (pk_cols @ compare_cols_of common pk_cols ig) = Inr e1 \<and>
     collect (\<lambda>col. build_select_expression upper col ''t2'' casts db)
       (pk_cols @ compare_cols_of common pk_cols ig) = Inr e2 \<and>
     q = nl @ ''    WITH table1_prepared AS ('' @
         nl @ ''        SELECT '' @ join '', '' e1 @ '' FROM '' @ r1 @ '' t1'' @
         nl @ ''    ),'' @
         nl @ ''    table2_prepared AS ('' @
         nl @ ''        SELECT '' @ join '', '' e2 @ '' FROM '' @ r2 @ '' t2'' @
         nl @ ''    )'' @
         nl @ ''    SELECT'' @
         nl @ ''        '' @ join '', '' (coalesced_pk_selects db pk_cols) @ '','' @
         nl @ ''        t1.*, '' @
         nl @ ''        t2.*  '' @
         nl @ ''    FROM table1_prepared t1'' @
         nl @ ''    FULL OUTER JOIN table2_prepared t2 ON '' @ join_on_pks db pk_cols @
         nl @ ''    WHERE '' @ where_clause db pk_cols (compare_cols_of common pk_cols ig) @
         nl @ ''    '' @
         (case limit of None \<Rightarrow> [] | Some n \<Rightarrow> '' LIMIT '' @ str_of_int n)"
  using assms
  by (auto simp: build_comparison_query_def query_text_def Let_def
      split: sum.splits option.splits)

lemma collect_no_cast:
  "\<forall>col\<in>set cols. casts col = None \<Longrightarrow>
   collect (\<lambda>col. build_select_expression upper col alias casts db) cols =
     Inr (map (\<lambda>col. alias @ ''.'' @ quote_identifier col db @ '' AS '' @
                      quote_identifier (alias @ ''_'' @ col) db) cols)"
  by (induction cols) (auto simp: build_select_expression_def Let_def)

lemma diff_condition_fun:
  "diff_condition db =
     (\<lambda>col. ''t1.'' @ quote_identifier (''t1_'' @ col) db @
            '' IS DISTINCT FROM t2.'' @ quote_identifier (''t2_'' @ col) db)"
  by (rule ext) (simp add: diff_condition_def)

lemma where_clause_text:
  "compare_cols \<noteq> [] \<Longrightarrow> pk_cols \<noteq> [] \<Longrightarrow>
   where_clause db pk_cols compare_cols =
     ''('' @ join '' OR ''
              (map (\<lambda>col. ''t1.'' @ quote_identifier (''t1_'' @ col) db @
                           '' IS DISTINCT FROM t2.'' @ quote_identifier (''t2_'' @ col) db)
                 compare_cols) @ '')'' @
     '' OR ('' @ t1_only_conditions db pk_cols @ '')'' @
     '' OR ('' @ t2_only_conditions db pk_cols @ '')''"
  by (simp add: where_clause_def where_parts_def diff_conditions_list_def diff_condition_fun)

text \<open>
  Claim C7.  The query text is a function of its inputs, and it does not depend on
  the order in which the set of the common columns is iterated: two listings of the
  common columns of the same two tables give the same result.  The compare columns
  are the common columns that are neither key nor ignored, each once, in the
  lexicographic order, and that is the order in which the query holds them: a query
  that is built is the text below, whose two select lists are the select expressions
  of \<open>pk_cols\<close> followed by the sorted compare columns (without a cast, the quoted
  column and its quoted alias), and whose \<open>WHERE\<close> clause lists the conditions of
  the sorted compare columns.
\<close>

theorem query_independent_of_set_order:
  assumes "is_common_schema_cols t1 t2 c1" and "is_common_schema_cols t1 t2 c2"
  shows "build_comparison_query upper db r1 r2 c1 pk_cols ig casts limit =
         build_comparison_query upper db r1 r2 c2 pk_cols ig casts limit
       \<and> compare_cols_of c1 pk_cols ig = compare_cols_of c2 pk_cols ig
       \<and> sorted (compare_cols_of c1 pk_cols ig)
       \<and> distinct (compare_cols_of c1 pk_cols ig)
       \<and> set (compare_cols_of c1 pk_cols ig) = (set t1 \<inter> set t2) - set pk_cols - set ig
       \<and> (\<forall>q. build_comparison_query upper db r1 r2 c1 pk_cols ig casts limit = Inr q \<longrightarrow>
         (\<exists>e1 e2.
            collect (\<lambda>col. build_select_expression upper col ''t1'' casts db)
              (pk_cols @ compare_cols_of c1 pk_cols ig) = Inr e1 \<and>
            collect (\<lambda>col. build_select_expression upper col ''t2'' casts db)
              (pk_cols @ compare_cols_of c1 pk_cols ig) = Inr e2 \<and>
            q = nl @ ''    WITH table1_prepared AS ('' @
           nl @ ''        SELECT '' @ join '', '' e1 @ '' FROM '' @ r1 @ '' t1'' @
           nl @ ''    ),'' @
           nl @ ''    table2_prepared AS ('' @
           nl @ ''        SELECT '' @ join '', '' e2 @ '' FROM '' @ r2 @ '' t2'' @
           nl @ ''    )'' @
           nl @ ''    SELECT'' @
           nl @ ''        '' @ join '', '' (coalesced_pk_selects db pk_cols) @ '','' @
           nl @ ''        t1.*, '' @
           nl @ ''        t2.*  '' @
           nl @ ''    FROM table1_prepared t1'' @
           nl @ ''    FULL OUTER JOIN table2_prepared t2 ON '' @ join_on_pks db pk_cols @
           nl @ ''    WHERE '' @ where_clause db pk_cols (compare_cols_of c1 pk_cols ig) @
           nl @ ''    '' @
           (case limit of None \<Rightarrow> [] | Some n \<Rightarrow> '' LIMIT '' @ str_of_int n)))
       \<and> ((\<forall>col\<in>set (pk_cols @ compare_cols_of c1 pk_cols ig). casts col = None) \<longrightarrow>
          collect (\<lambda>col. build_select_expression upper col ''t1'' casts db)
            (pk_cols @ compare_cols_of c1 pk_cols ig) =
          Inr (map (\<lambda>col. ''t1.'' @ quote_identifier col db @ '' AS '' @
                           quote_identifier (''t1_'' @ col) db)
                 (pk_cols @ compare_cols_of c1 pk_cols ig)) \<and>
          collect (\<lambda>col. build_select_expression upper col ''t2'' casts db)
            (pk_cols @ compare_cols_of c1 pk_cols ig) =
          Inr (map (\<lambda>col. ''t2.'' @ quote_identifier col db @ '' AS '' @
                           quote_identifier (''t2_'' @ col) db)
                 (pk_cols @ compare_cols_of c1 pk_cols ig)))
       \<and> (compare_cols_of c1 pk_cols ig \<noteq> [] \<and> pk_cols \<noteq> [] \<longrightarrow>
          where_clause db pk_cols (compare_cols_of c1 pk_cols ig) =
            ''('' @ join '' OR ''
                     (map (\<lambda>col. ''t1.'' @ quote_identifier (''t1_'' @ col) db @
                                  '' IS DISTINCT FROM t2.'' @ quote_identifier (''t2_'' @ col) db)
                        (compare_cols_of c1 pk_cols ig)) @ '')'' @
            '' OR ('' @ t1_only_conditions db pk_cols @ '')'' @
            '' OR ('' @ t2_only_conditions db pk_cols @ '')'')"
proof -
  from assms have d: "distinct c1" "distinct c2" and s: "set c1 = set c2"
    and s1: "set c1 = set t1 \<inter> set t2"
    by (simp_all add: is_common_schema_cols_def)
  have cc: "compare_cols_of c1 pk_cols ig = compare_cols_of c2 pk_cols ig"
    using d s by (rule compare_cols_order_independent)
  have v: "validate_pk_cols c1 pk_cols = validate_pk_cols c2 pk_cols"
    using s by (rule validate_pk_cols_set)
  have same: "build_comparison_query upper db r1 r2 c1 pk_cols ig casts limit =
         build_comparison_query upper db r1 r2 c2 pk_cols ig casts limit"
    unfolding build_comparison_query_def cc v ..
  have st: "set (compare_cols_of c1 pk_cols ig) = (set t1 \<inter> set t2) - set pk_cols - set ig"
    by (simp only: compare_cols_set s1)
  have so: "sorted (compare_cols_of c1 pk_cols ig)" by (rule compare_cols_sorted)
  have di: "distinct (compare_cols_of c1 pk_cols ig)"
    using d(1) by (rule compare_cols_distinct)
  have a: "(\<forall>q. build_comparison_query upper db r1 r2 c1 pk_cols ig casts limit = Inr q \<longrightarrow>
         (\<exists>e1 e2.
            collect (\<lambda>col. build_select_expression upper col ''t1'' casts db)
              (pk_cols @ compare_cols_of c1 pk_cols ig) = Inr e1 \<and>
            collect (\<lambda>col. build_select_expression upper col ''t2'' casts db)
              (pk_cols @ compare_cols_of c1 pk_cols ig) = Inr e2 \<and>
            q = nl @ ''    WITH table1_prepared AS ('' @
           nl @ ''        SELECT '' @ join '', '' e1 @ '' FROM '' @ r1 @ '' t1'' @
           nl @ ''    ),'' @
           nl @ ''    table2_prepared AS ('' @
           nl @ ''        SELECT '' @ join '', '' e2 @ '' FROM '' @ r2 @ '' t2'' @
           nl @ ''    )'' @
           nl @ ''    SELECT'' @
           nl @ ''        '' @ join '', '' (coalesced_pk_selects db pk_cols) @ '','' @
           nl @ ''        t1.*, '' @
           nl @ ''        t2.*  '' @
           nl @ ''    FROM table1_prepared t1'' @
           nl @ ''    FULL OUTER JOIN table2_prepared t2 ON '' @ join_on_pks db pk_cols @
           nl @ ''    WHERE '' @ where_clause db pk_cols (compare_cols_of c1 pk_cols ig) @
           nl @ ''    '' @
           (case limit of None \<Rightarrow> [] | Some n \<Rightarrow> '' LIMIT '' @ str_of_int n)))"
    using build_comparison_query_text [of upper db r1 r2 c1 pk_cols ig casts limit] by blast
  have b: "((\<forall>col\<in>set (pk_cols @ compare_cols_of c1 pk_cols ig). casts col = None) \<longrightarrow>
          collect (\<lambda>col. build_select_expression upper col ''t1'' casts db)
            (pk_cols @ compare_cols_of c1 pk_cols ig) =
          Inr (map (\<lambda>col. ''t1.'' @ quote_identifier col db @ '' AS '' @
                           quote_identifier (''t1_'' @ col) db)
                 (pk_cols @ compare_cols_of c1 pk_cols ig)) \<and>
          collect (\<lambda>col. build_select_expression upper col ''t2'' casts db)
            (pk_cols @ compare_cols_of c1 pk_cols ig) =
          Inr (map (\<lambda>col. ''t2.'' @ quote_identifier col db @ '' AS '' @
                           quote_identifier (''t2_'' @ col) db)
                 (pk_cols @ compare_cols_of c1 pk_cols ig)))"
    using collect_no_cast [of "pk_cols @ compare_cols_of c1 pk_cols ig" casts upper "''t1''" db]
      collect_no_cast [of "pk_cols @ compare_cols_of c1 pk_cols ig" casts upper "''t2''" db]
    by simp
  have c: "(compare_cols_of c1 pk_cols ig \<noteq> [] \<and> pk_cols \<noteq> [] \<longrightarrow>
          where_clause db pk_cols (compare_cols_of c1 pk_cols ig) =
            ''('' @ join '' OR ''
                     (map (\<lambda>col. ''t1.'' @ quote_identifier (''t1_'' @ col) db @
                                  '' IS DISTINCT FROM t2.'' @ quote_identifier (''t2_'' @ col) db)
                        (compare_cols_of c1 pk_cols ig)) @ '')'' @
            '' OR ('' @ t1_only_conditions db pk_cols @ '')'' @
            '' OR ('' @ t2_only_conditions db pk_cols @ '')'')"
    using where_clause_text [of "compare_cols_of c1 pk_cols ig" pk_cols db] by blast
  from same cc so di st a b c show ?thesis by blast
qed

theorem query_independent_of_set_order_witness:
  \<open>build_comparison_query ascii_upper ''duckdb'' ''"A"'' ''"B"''
       [''name'', ''value'', ''id''] [''id''] [] Map.empty None =
   Inr (nl @ ''    WITH table1_prepared AS ('' @
        nl @ ''        SELECT t1."id" AS "t1_id", t1."name" AS "t1_name", t1."value" AS "t1_value" FROM "A" t1'' @
        nl @ ''    ),'' @
        nl @ ''    table2_prepared AS ('' @
        nl @ ''        SELECT t2."id" AS "t2_id", t2."name" AS "t2_name", t2."value" AS "t2_value" FROM "B" t2'' @
        nl @ ''    )'' @
        nl @ ''    SELECT'' @
        nl @ ''        COALESCE(t1."t1_id", t2."t2_id") AS "id",'' @
        nl @ ''        t1.*, '' @
        nl @ ''        t2.*  '' @
        nl @ ''    FROM table1_prepared t1'' @
        nl @ ''    FULL OUTER JOIN table2_prepared t2 ON t1."t1_id" = t2."t2_id"'' @
        nl @ ''    WHERE (t1."t1_name" IS DISTINCT FROM t2."t2_name" OR t1."t1_value" IS DISTINCT FROM t2."t2_value") OR (t2."t2_id" IS NULL) OR (t1."t1_id" IS NULL)'' @
        nl @ ''    '')
   \<and> compare_cols_of [''name'', ''value'', ''id''] [''id''] [] = [''name'', ''value'']\<close>
proof -
  have c1: "is_common_schema_cols [''id'', ''name'', ''value''] [''value'', ''name'', ''id'', ''extra'']
      [''value'', ''id'', ''name'']"
    by (auto simp: is_common_schema_cols_def)
  have c2: "is_common_schema_cols [''id'', ''name'', ''value''] [''value'', ''name'', ''id'', ''extra'']
      [''name'', ''value'', ''id'']"
    by (auto simp: is_common_schema_cols_def)
  have first: \<open>build_comparison_query ascii_upper ''duckdb'' ''"A"'' ''"B"''
       [''value'', ''id'', ''name''] [''id''] [] Map.empty None =
   Inr (nl @ ''    WITH table1_prepared AS ('' @
        nl @ ''        SELECT t1."id" AS "t1_id", t1."name" AS "t1_name", t1."value" AS "t1_value" FROM "A" t1'' @
        nl @ ''    ),'' @
        nl @ ''    table2_prepared AS ('' @
        nl @ ''        SELECT t2."id" AS "t2_id", t2."name" AS "t2_name", t2."value" AS "t2_value" FROM "B" t2'' @
        nl @ ''    )'' @
        nl @ ''    SELECT'' @
        nl @ ''        COALESCE(t1."t1_id", t2."t2_id") AS "id",'' @
        nl @ ''        t1.*, '' @
        nl @ ''        t2.*  '' @
        nl @ ''    FROM table1_prepared t1'' @
        nl @ ''    FULL OUTER JOIN table2_prepared t2 ON t1."t1_id" = t2."t2_id"'' @
        nl @ ''    WHERE (t1."t1_name" IS DISTINCT FROM t2."t2_name" OR t1."t1_value" IS DISTINCT FROM t2."t2_value") OR (t2."t2_id" IS NULL) OR (t1."t1_id" IS NULL)'' @
        nl @ ''    '')\<close>
    by (simp add: build_comparison_query_def validate_pk_cols_def compare_cols_of_def
        build_select_expression_def quote_identifier_def query_text_def coalesced_pk_selects_def
        join_on_pks_def where_clause_def where_parts_def diff_conditions_list_def
        diff_condition_def t1_only_conditions_def t2_only_conditions_def)
  have cols: "compare_cols_of [''value'', ''id'', ''name''] [''id''] [] = [''name'', ''value'']"
    by (simp add: compare_cols_of_def)
  from query_independent_of_set_order [OF c1 c2, of ascii_upper "''duckdb''"
      "[CHR 0x22] @ ''A'' @ [CHR 0x22]" "[CHR 0x22] @ ''B'' @ [CHR 0x22]" "[''id'']" "[]"
      Map.empty None]
  have "build_comparison_query ascii_upper ''duckdb'' ([CHR 0x22] @ ''A'' @ [CHR 0x22])
          ([CHR 0x22] @ ''B'' @ [CHR 0x22]) [''value'', ''id'', ''name''] [''id''] [] Map.empty None =
        build_comparison_query ascii_upper ''duckdb'' ([CHR 0x22] @ ''A'' @ [CHR 0x22])
          ([CHR 0x22] @ ''B'' @ [CHR 0x22]) [''name'', ''value'', ''id''] [''id''] [] Map.empty None"
    and "compare_cols_of [''value'', ''id'', ''name''] [''id''] [] =
         compare_cols_of [''name'', ''value'', ''id''] [''id''] []"
    by blast+
  with first cols show ?thesis by simp
qed

section \<open>Properties of the reconciler\<close>

lemma map_of_fold_update:
  "map_of (fold (\<lambda>col. AList.update col (f col)) cols d) k =
     (if k \<in> set cols then Some (f k) else map_of d k)"
  by (induction cols arbitrary: d) (auto simp: update_conv')

lemma fold_update_Nil_iff:
  "fold (\<lambda>col. AList.update col (f col)) cols d = [] \<longleftrightarrow> cols = [] \<and> d = []"
proof (induction cols arbitrary: d)
  case Nil
  show ?case by simp
next
  case (Cons c cs)
  then show ?case by simp
qed

lemma value_diff_step_eq:
  "value_diff_step ops db row_dict col st =
     (if differs ops db row_dict col
      then (AList.update col
              (ValuePair (coerce ops db (dict_get row_dict (''t1_'' @ col)))
                         (coerce ops db (dict_get row_dict (''t2_'' @ col)))) (fst st), True)
      else st)"
  by (simp add: value_diff_step_def differs_def Let_def)

lemma fold_value_diff_map:
  "map_of (fst (fold (value_diff_step ops db row_dict) cols st)) k =
     (if k \<in> set cols \<and> differs ops db row_dict k
      then Some (ValuePair (coerce ops db (dict_get row_dict (''t1_'' @ k)))
                           (coerce ops db (dict_get row_dict (''t2_'' @ k))))
      else map_of (fst st) k)"
  by (induction cols arbitrary: st) (auto simp: value_diff_step_eq update_conv')

lemma fold_value_diff_flag:
  "snd (fold (value_diff_step ops db row_dict) cols st) \<longleftrightarrow>
     snd st \<or> (\<exists>col\<in>set cols. differs ops db row_dict col)"
  by (induction cols arbitrary: st) (auto simp: value_diff_step_eq)

lemma fold_value_diff_empty:
  "(fst st = [] \<longleftrightarrow> \<not> snd st) \<Longrightarrow>
   (fst (fold (value_diff_step ops db row_dict) cols st) = [] \<longleftrightarrow>
    \<not> snd (fold (value_diff_step ops db row_dict) cols st))"
proof (induction cols arbitrary: st)
  case Nil
  then show ?case by simp
next
  case (Cons c cs)
  have "fst (value_diff_step ops db row_dict c st) = [] \<longleftrightarrow>
        \<not> snd (value_diff_step ops db row_dict c st)"
    using Cons.prems by (simp add: value_diff_step_eq)
  from Cons.IH [OF this] show ?case by simp
qed

lemma not_both_only: "\<not> (is_t1_only pk_cols row_dict \<and> is_t2_only pk_cols row_dict)"
  by (auto simp: is_t1_only_def is_t2_only_def list_all_iff list_ex_iff)

lemma row_details_t1_only:
  "is_t1_only pk_cols row_dict \<Longrightarrow>
   row_details ops db pk_cols compare_cols row_dict =
     (fold (\<lambda>col. AList.update col (ValuePair (dict_get row_dict (''t1_'' @ col)) None))
        compare_cols [], [''present_in_table1_only''])"
  by (simp add: row_details_def)

lemma row_details_t2_only:
  "is_t2_only pk_cols row_dict \<Longrightarrow>
   row_details ops db pk_cols compare_cols row_dict =
     (fold (\<lambda>col. AList.update col (ValuePair None (dict_get row_dict (''t2_'' @ col))))
        compare_cols [], [''present_in_table2_only''])"
  using not_both_only [of pk_cols row_dict] by (auto simp: row_details_def)

lemma row_details_both:
  assumes "\<not> is_t1_only pk_cols row_dict" "\<not> is_t2_only pk_cols row_dict"
  shows "fst (row_details ops db pk_cols compare_cols row_dict) =
           fst (fold (value_diff_step ops db row_dict) compare_cols ([], False))"
    and "snd (row_details ops db pk_cols compare_cols row_dict) =
           (if \<exists>col\<in>set compare_cols. differs ops db row_dict col
            then [''value_differences''] else [])"
    and "fst (row_details ops db pk_cols compare_cols row_dict) = [] \<longleftrightarrow>
           \<not> (\<exists>col\<in>set compare_cols. differs ops db row_dict col)"
proof -
  let ?r = "fold (value_diff_step ops db row_dict) compare_cols ([], False)"
  have rd: "row_details ops db pk_cols compare_cols row_dict =
      (fst ?r, if snd ?r then [''value_differences''] else [])"
    using assms by (simp add: row_details_def split_beta)
  have flag: "snd ?r \<longleftrightarrow> (\<exists>col\<in>set compare_cols. differs ops db row_dict col)"
    by (simp add: fold_value_diff_flag)
  have empty: "fst ?r = [] \<longleftrightarrow> \<not> snd ?r"
    by (rule fold_value_diff_empty) simp
  show "fst (row_details ops db pk_cols compare_cols row_dict) = fst ?r"
    by (simp add: rd)
  show "snd (row_details ops db pk_cols compare_cols row_dict) =
           (if \<exists>col\<in>set compare_cols. differs ops db row_dict col
            then [''value_differences''] else [])"
    using flag by (simp add: rd)
  show "fst (row_details ops db pk_cols compare_cols row_dict) = [] \<longleftrightarrow>
           \<not> (\<exists>col\<in>set compare_cols. differs ops db row_dict col)"
    using flag empty by (simp add: rd)
qed

text \<open>The status list of a row has at most one element.\<close>

lemma status_indicators_cases:
  "snd (row_details ops db pk_cols compare_cols row_dict) =
     (if is_t1_only pk_cols row_dict then [''present_in_table1_only'']
      else if is_t2_only pk_cols row_dict then [''present_in_table2_only'']
      else if \<exists>col\<in>set compare_cols. differs ops db row_dict col then [''value_differences'']
      else [])"
  by (simp add: row_details_t1_only row_details_t2_only row_details_both(2))

lemma is_emitted_iff:
  "is_emitted (row_details ops db pk_cols compare_cols row_dict) \<longleftrightarrow>
     is_t1_only pk_cols row_dict \<or> is_t2_only pk_cols row_dict \<or>
     (\<exists>col\<in>set compare_cols. differs ops db row_dict col)"
proof (cases "is_t1_only pk_cols row_dict \<or> is_t2_only pk_cols row_dict")
  case True
  then show ?thesis by (auto simp: is_emitted_def status_indicators_cases)
next
  case False
  then show ?thesis
    by (simp add: is_emitted_def status_indicators_cases row_details_both(3))
qed

lemma entry_diffs_update: "entry_diffs (AList.update ''diffs'' (Diffs d) e) = d"
  by (simp add: entry_diffs_def update_conv')

lemma reconcile_row_Some:
  "reconcile_row ops db pk_cols compare_cols names row = Some e \<Longrightarrow>
   is_emitted (row_details ops db pk_cols compare_cols (dict_of (zip names row))) \<and>
   entry_diffs e = emitted_diffs (row_details ops db pk_cols compare_cols (dict_of (zip names row)))"
  by (auto simp: reconcile_row_def Let_def entry_diffs_update split: if_splits)

lemma reconcile_row_emitted:
  "is_emitted (row_details ops db pk_cols compare_cols (dict_of (zip names row))) \<Longrightarrow>
   \<exists>e. reconcile_row ops db pk_cols compare_cols names row = Some e"
  by (simp add: reconcile_row_def Let_def)

lemma emitted_diffs_other:
  "k \<noteq> ''_status'' \<Longrightarrow> map_of (emitted_diffs details) k = map_of (fst details) k"
  by (simp add: emitted_diffs_def update_conv')

lemma emitted_diffs_status:
  "snd details \<noteq> [] \<Longrightarrow>
   map_of (emitted_diffs details) ''_status'' = Some (Status (join '','' (snd details)))"
  by (simp add: emitted_diffs_def update_conv')

lemma reconcile_set:
  "e \<in> set (reconcile ops db pk_cols compare_cols names rows) \<longleftrightarrow>
     (\<exists>row\<in>set rows. reconcile_row ops db pk_cols compare_cols names row = Some e)"
  by (induction rows) (auto split: option.splits)

lemma coerce_None: "coerce ops db None = None"
  by (simp add: coerce_def)

lemma coerce_Some: "\<exists>w. coerce ops db (Some v) = Some w"
  by (simp add: coerce_def)

lemma differs_null:
  "dict_get row_dict (''t1_'' @ col) = None \<Longrightarrow> dict_get row_dict (''t2_'' @ col) = None \<Longrightarrow>
   \<not> differs ops db row_dict col"
  by (simp add: differs_def coerce_None)

lemma differs_one_null:
  assumes "(dict_get row_dict (''t1_'' @ col) = None) \<noteq> (dict_get row_dict (''t2_'' @ col) = None)"
  shows "differs ops db row_dict col"
proof (cases "dict_get row_dict (''t1_'' @ col)")
  case None
  with assms obtain v where v: "dict_get row_dict (''t2_'' @ col) = Some v" by auto
  obtain w where "coerce ops db (Some v) = Some w" using coerce_Some [of ops db v] by blast
  with None v show ?thesis by (simp add: differs_def coerce_None)
next
  case (Some v)
  with assms have n: "dict_get row_dict (''t2_'' @ col) = None" by auto
  obtain w where "coerce ops db (Some v) = Some w" using coerce_Some [of ops db v] by blast
  with Some n show ?thesis by (simp add: differs_def coerce_None)
qed

lemmas row_eval = dict_of_def dict_get_def is_t1_only_def is_t2_only_def


lemma keys_fold_update:
  "fst ` set (fold (\<lambda>(k, v) d. AList.update k v d) pairs d0) = fst ` set pairs \<union> fst ` set d0"
proof (induction pairs arbitrary: d0)
  case Nil
  show ?case by simp
next
  case (Cons p ps)
  obtain k v where p: "p = (k, v)" by (cases p)
  have "fst ` set (fold (\<lambda>(k, v) d. AList.update k v d) (p # ps) d0) =
        fst ` set ps \<union> fst ` set (AList.update k v d0)"
    by (simp add: p Cons.IH)
  also have "\<dots> = fst ` set ps \<union> ({k} \<union> fst ` set d0)"
    by (simp only: dom_update)
  also have "\<dots> = fst ` set (p # ps) \<union> fst ` set d0"
    by (auto simp: p)
  finally show ?case .
qed

lemma keys_dict_of: "fst ` set (dict_of pairs) = fst ` set pairs"
  by (simp add: dict_of_def keys_fold_update)

lemma emitted_entry_keys:
  assumes "reconcile_row ops db pk_cols compare_cols names row = Some e"
  shows "fst ` set e = set pk_cols \<union> {''diffs''}"
proof -
  from assms have "\<exists>d. e = AList.update ''diffs'' (Diffs d)
      (dict_of (map (\<lambda>pk. (pk, Value (dict_get (dict_of (zip names row)) pk))) pk_cols))"
    by (auto simp: reconcile_row_def Let_def split: if_splits)
  then obtain d where "e = AList.update ''diffs'' (Diffs d)
      (dict_of (map (\<lambda>pk. (pk, Value (dict_get (dict_of (zip names row)) pk))) pk_cols))" ..
  then show ?thesis
    by (auto simp: dom_update keys_dict_of image_iff)
qed


lemma where_parts_diff_group:
  "compare_cols \<noteq> [] \<Longrightarrow>
   hd (where_parts db pk_cols compare_cols) =
     ''('' @ join '' OR '' (map (diff_condition db) compare_cols) @ '')''"
  by (simp add: where_parts_def diff_conditions_list_def)

text \<open>
  The null-safe comparison of the reconciler, for a compare column that is not named
  \<open>_status\<close>.  Take a row that is neither table1-only nor table2-only.  When the
  values of the column are null on both sides, the column has no entry in the
  \<open>diffs\<close> of the emitted record (if the row is emitted at all).  When exactly one
  of them is null, the row is emitted and \<open>diffs\<close> maps the column to the pair of
  the two values, of which still exactly that one is null.  In the query, the
  condition of each compare column is \<open>IS DISTINCT FROM\<close> on the two aliased
  columns, and the conditions of all compare columns, joined by \<open>OR\<close>, are the
  first part of the \<open>WHERE\<close> clause.
\<close>

theorem null_safe_comparison:
  fixes ops :: "'v value_ops"
  assumes rd: "row_dict = dict_of (zip final_column_names row_tuple)"
    and both: "\<not> is_t1_only pk_cols row_dict" "\<not> is_t2_only pk_cols row_dict"
    and col: "col \<in> set compare_cols" "col \<noteq> ''_status''"
  shows
    "(dict_get row_dict (''t1_'' @ col) = None \<and> dict_get row_dict (''t2_'' @ col) = None \<longrightarrow>
        (\<forall>e. reconcile_row ops db pk_cols compare_cols final_column_names row_tuple = Some e \<longrightarrow>
             map_of (entry_diffs e) col = None))
     \<and> ((dict_get row_dict (''t1_'' @ col) = None) \<noteq> (dict_get row_dict (''t2_'' @ col) = None) \<longrightarrow>
        (\<exists>e. reconcile_row ops db pk_cols compare_cols final_column_names row_tuple = Some e \<and>
             map_of (entry_diffs e) col =
               Some (ValuePair (coerce ops db (dict_get row_dict (''t1_'' @ col)))
                               (coerce ops db (dict_get row_dict (''t2_'' @ col))))) \<and>
        (coerce ops db (dict_get row_dict (''t1_'' @ col)) = None) =
          (dict_get row_dict (''t1_'' @ col) = None) \<and>
        (coerce ops db (dict_get row_dict (''t2_'' @ col)) = None) =
          (dict_get row_dict (''t2_'' @ col) = None))
     \<and> diff_condition db col =
         ''t1.'' @ quote_identifier (''t1_'' @ col) db @ '' IS DISTINCT FROM t2.'' @
         quote_identifier (''t2_'' @ col) db
     \<and> hd (where_parts db pk_cols compare_cols) =
         ''('' @ join '' OR '' (map (diff_condition db) compare_cols) @ '')''
     \<and> where_clause db pk_cols compare_cols = join '' OR '' (where_parts db pk_cols compare_cols)"
proof -
  let ?details = "row_details ops db pk_cols compare_cols row_dict"
  have lookup: "map_of (emitted_diffs ?details) col =
      (if differs ops db row_dict col
       then Some (ValuePair (coerce ops db (dict_get row_dict (''t1_'' @ col)))
                            (coerce ops db (dict_get row_dict (''t2_'' @ col))))
       else None)"
    using col by (simp add: emitted_diffs_other row_details_both(1) [OF both] fold_value_diff_map)
  have null: "dict_get row_dict (''t1_'' @ col) = None \<and> dict_get row_dict (''t2_'' @ col) = None \<longrightarrow>
        (\<forall>e. reconcile_row ops db pk_cols compare_cols final_column_names row_tuple = Some e \<longrightarrow>
             map_of (entry_diffs e) col = None)"
  proof (intro impI allI)
    fix e
    assume n: "dict_get row_dict (''t1_'' @ col) = None \<and> dict_get row_dict (''t2_'' @ col) = None"
      and e: "reconcile_row ops db pk_cols compare_cols final_column_names row_tuple = Some e"
    from n have "\<not> differs ops db row_dict col" by (simp add: differs_null)
    moreover from e have "entry_diffs e = emitted_diffs ?details"
      using reconcile_row_Some [of ops db pk_cols compare_cols final_column_names row_tuple e]
      by (simp add: rd)
    ultimately show "map_of (entry_diffs e) col = None" by (simp add: lookup)
  qed
  have one: "(dict_get row_dict (''t1_'' @ col) = None) \<noteq> (dict_get row_dict (''t2_'' @ col) = None) \<longrightarrow>
        (\<exists>e. reconcile_row ops db pk_cols compare_cols final_column_names row_tuple = Some e \<and>
             map_of (entry_diffs e) col =
               Some (ValuePair (coerce ops db (dict_get row_dict (''t1_'' @ col)))
                               (coerce ops db (dict_get row_dict (''t2_'' @ col)))))"
  proof
    assume "(dict_get row_dict (''t1_'' @ col) = None) \<noteq> (dict_get row_dict (''t2_'' @ col) = None)"
    then have d: "differs ops db row_dict col" by (rule differs_one_null)
    with col(1) have "is_emitted ?details" by (auto simp: is_emitted_iff)
    then obtain e where e: "reconcile_row ops db pk_cols compare_cols final_column_names row_tuple = Some e"
      using reconcile_row_emitted [of ops db pk_cols compare_cols final_column_names row_tuple]
      by (auto simp: rd)
    then have "entry_diffs e = emitted_diffs ?details"
      using reconcile_row_Some [of ops db pk_cols compare_cols final_column_names row_tuple e]
      by (simp add: rd)
    with d e show "\<exists>e. reconcile_row ops db pk_cols compare_cols final_column_names row_tuple = Some e \<and>
             map_of (entry_diffs e) col =
               Some (ValuePair (coerce ops db (dict_get row_dict (''t1_'' @ col)))
                               (coerce ops db (dict_get row_dict (''t2_'' @ col))))"
      by (simp add: lookup)
  qed
  have keep: "\<And>val. (coerce ops db val = None) = (val = None)"
    by (simp add: coerce_def split: option.splits)
  have cond: "diff_condition db col =
         ''t1.'' @ quote_identifier (''t1_'' @ col) db @ '' IS DISTINCT FROM t2.'' @
         quote_identifier (''t2_'' @ col) db"
    by (simp add: diff_condition_def)
  from col(1) have ne: "compare_cols \<noteq> []" by auto
  then have grp: "hd (where_parts db pk_cols compare_cols) =
         ''('' @ join '' OR '' (map (diff_condition db) compare_cols) @ '')''"
    by (rule where_parts_diff_group)
  from ne have wc: "where_clause db pk_cols compare_cols =
      join '' OR '' (where_parts db pk_cols compare_cols)"
    by (simp add: where_clause_def where_parts_def diff_conditions_list_def)
  from null one keep cond grp wc show ?thesis by blast
qed


theorem null_safe_comparison_witness:
  "\<exists>e. reconcile_row int_value_ops ''duckdb'' [''id''] [''name'', ''value'']
          [''id'', ''t1_id'', ''t1_name'', ''t1_value'', ''t2_id'', ''t2_name'', ''t2_value'']
          [Some 2, Some 2, None, Some 200, Some 2, None, None] = Some e \<and>
       map_of (entry_diffs e) ''value'' = Some (ValuePair (Some 200) None) \<and>
       map_of (entry_diffs e) ''name'' = None"
proof -
  let ?names = "[''id'', ''t1_id'', ''t1_name'', ''t1_value'', ''t2_id'', ''t2_name'', ''t2_value'']"
  let ?row = "[Some 2, Some 2, None, Some 200, Some 2, None, None] :: int option list"
  let ?rd = "dict_of (zip ?names ?row)"
  have b1: "\<not> is_t1_only [''id''] ?rd" and b2: "\<not> is_t2_only [''id''] ?rd"
    by (simp_all add: row_eval)
  have v: "dict_get ?rd ''t1_value'' = Some 200" "dict_get ?rd ''t2_value'' = None"
    and n: "dict_get ?rd ''t1_name'' = None" "dict_get ?rd ''t2_name'' = None"
    by (simp_all add: row_eval)
  have c: "coerce int_value_ops ''duckdb'' (Some 200) = Some 200"
    "coerce int_value_ops ''duckdb'' None = None"
    by (simp_all add: coerce_def)
  from null_safe_comparison [OF refl b1 b2, of "''value''" "[''name'', ''value'']"
      int_value_ops "''duckdb''"] v c
  obtain e where e: "reconcile_row int_value_ops ''duckdb'' [''id''] [''name'', ''value'']
          ?names ?row = Some e"
    and ev: "map_of (entry_diffs e) ''value'' = Some (ValuePair (Some 200) None)"
    by auto
  from null_safe_comparison [OF refl b1 b2, of "''name''" "[''name'', ''value'']"
      int_value_ops "''duckdb''"] n e
  have "map_of (entry_diffs e) ''name'' = None" by simp
  with e ev show ?thesis by blast
qed


text \<open>
  Claim C3.  For every row present on both sides and every compare column, a column
  that is null on both sides does not appear in the differences of the record, and a
  column that is null on exactly one side appears there with the pair of its two
  values; the filter of the query uses a null-safe comparator.  The code breaks this
  for a compare column named \<open>_status\<close>.  In the row below, present on both sides,
  the column is null on side 1 and 5 on side 2; line 378 stores the pair in
  \<open>diff_details\<close>, and line 386 stores the status string under the same key of the
  same dictionary, so that the emitted \<open>diffs\<close> holds \<open>value_differences\<close> where
  the pair should be.
\<close>

theorem status_column_pair_lost:
  "is_t1_only [''id'']
       (dict_of (zip [''id'', ''t1_id'', ''t1__status'', ''t2_id'', ''t2__status'']
                     [Some 1, Some 1, None, Some 1, Some (5::int)])) = False
   \<and> is_t2_only [''id'']
       (dict_of (zip [''id'', ''t1_id'', ''t1__status'', ''t2_id'', ''t2__status'']
                     [Some 1, Some 1, None, Some 1, Some (5::int)])) = False
   \<and> dict_get (dict_of (zip [''id'', ''t1_id'', ''t1__status'', ''t2_id'', ''t2__status'']
                     [Some 1, Some 1, None, Some 1, Some (5::int)])) ''t1__status'' = None
   \<and> dict_get (dict_of (zip [''id'', ''t1_id'', ''t1__status'', ''t2_id'', ''t2__status'']
                     [Some 1, Some 1, None, Some 1, Some (5::int)])) ''t2__status'' = Some 5
   \<and> fst (row_details int_value_ops ''duckdb'' [''id''] [''_status'']
        (dict_of (zip [''id'', ''t1_id'', ''t1__status'', ''t2_id'', ''t2__status'']
                      [Some 1, Some 1, None, Some 1, Some 5]))) =
      [(''_status'', ValuePair None (Some 5))]
   \<and> reconcile_row int_value_ops ''duckdb'' [''id''] [''_status'']
        [''id'', ''t1_id'', ''t1__status'', ''t2_id'', ''t2__status'']
        [Some 1, Some 1, None, Some 1, Some 5] =
      Some [(''id'', Value (Some 1)),
            (''diffs'', Diffs [(''_status'', Status ''value_differences'')])]"
  by (simp add: row_eval reconcile_row_def row_details_def value_diff_step_def coerce_def
      is_emitted_def emitted_diffs_def int_value_ops_def Let_def)

text \<open>
  Rows present on one side only, for the compare columns that are not named
  \<open>_status\<close>.  A row in which every side-2 key value is null and some side-1 key
  value is not is emitted with the status \<open>present_in_table1_only\<close>, and its
  \<open>diffs\<close> maps every such compare column to the pair of the side-1 value and
  null; the same holds with the sides exchanged; and no row is both table1-only and
  table2-only.
\<close>

theorem presence_only_rows:
  fixes ops :: "'v value_ops"
  assumes rd: "row_dict = dict_of (zip final_column_names row_tuple)"
  shows
    "(is_t1_only pk_cols row_dict \<longrightarrow>
        (\<exists>e. reconcile_row ops db pk_cols compare_cols final_column_names row_tuple = Some e \<and>
             entry_status e = Some ''present_in_table1_only'' \<and>
             (\<forall>col\<in>set compare_cols. col \<noteq> ''_status'' \<longrightarrow>
                map_of (entry_diffs e) col =
                  Some (ValuePair (dict_get row_dict (''t1_'' @ col)) None))))
     \<and> (is_t2_only pk_cols row_dict \<longrightarrow>
        (\<exists>e. reconcile_row ops db pk_cols compare_cols final_column_names row_tuple = Some e \<and>
             entry_status e = Some ''present_in_table2_only'' \<and>
             (\<forall>col\<in>set compare_cols. col \<noteq> ''_status'' \<longrightarrow>
                map_of (entry_diffs e) col =
                  Some (ValuePair None (dict_get row_dict (''t2_'' @ col))))))
     \<and> \<not> (is_t1_only pk_cols row_dict \<and> is_t2_only pk_cols row_dict)"
proof -
  let ?details = "row_details ops db pk_cols compare_cols row_dict"
  have emitted: "is_emitted ?details \<Longrightarrow>
      \<exists>e. reconcile_row ops db pk_cols compare_cols final_column_names row_tuple = Some e \<and>
          entry_diffs e = emitted_diffs ?details"
  proof -
    assume "is_emitted ?details"
    then obtain e where e: "reconcile_row ops db pk_cols compare_cols final_column_names row_tuple = Some e"
      using reconcile_row_emitted [of ops db pk_cols compare_cols final_column_names row_tuple]
      by (auto simp: rd)
    then have "entry_diffs e = emitted_diffs ?details"
      using reconcile_row_Some [of ops db pk_cols compare_cols final_column_names row_tuple e]
      by (simp add: rd)
    with e show ?thesis by blast
  qed
  have t1: "is_t1_only pk_cols row_dict \<longrightarrow>
        (\<exists>e. reconcile_row ops db pk_cols compare_cols final_column_names row_tuple = Some e \<and>
             entry_status e = Some ''present_in_table1_only'' \<and>
             (\<forall>col\<in>set compare_cols. col \<noteq> ''_status'' \<longrightarrow>
                map_of (entry_diffs e) col =
                  Some (ValuePair (dict_get row_dict (''t1_'' @ col)) None)))"
  proof
    assume only: "is_t1_only pk_cols row_dict"
    then have "is_emitted ?details" by (simp add: is_emitted_iff)
    from emitted [OF this] obtain e
      where e: "reconcile_row ops db pk_cols compare_cols final_column_names row_tuple = Some e"
        and d: "entry_diffs e = emitted_diffs ?details" by blast
    have st: "entry_status e = Some ''present_in_table1_only''"
      using only by (simp add: entry_status_def d emitted_diffs_status status_indicators_cases)
    have "\<forall>col\<in>set compare_cols. col \<noteq> ''_status'' \<longrightarrow>
                map_of (entry_diffs e) col =
                  Some (ValuePair (dict_get row_dict (''t1_'' @ col)) None)"
      using only by (simp add: d emitted_diffs_other row_details_t1_only map_of_fold_update)
    with e st show "\<exists>e. reconcile_row ops db pk_cols compare_cols final_column_names row_tuple = Some e \<and>
             entry_status e = Some ''present_in_table1_only'' \<and>
             (\<forall>col\<in>set compare_cols. col \<noteq> ''_status'' \<longrightarrow>
                map_of (entry_diffs e) col =
                  Some (ValuePair (dict_get row_dict (''t1_'' @ col)) None))"
      by blast
  qed
  have t2: "is_t2_only pk_cols row_dict \<longrightarrow>
        (\<exists>e. reconcile_row ops db pk_cols compare_cols final_column_names row_tuple = Some e \<and>
             entry_status e = Some ''present_in_table2_only'' \<and>
             (\<forall>col\<in>set compare_cols. col \<noteq> ''_status'' \<longrightarrow>
                map_of (entry_diffs e) col =
                  Some (ValuePair None (dict_get row_dict (''t2_'' @ col)))))"
  proof
    assume only: "is_t2_only pk_cols row_dict"
    then have no1: "\<not> is_t1_only pk_cols row_dict"
      using not_both_only [of pk_cols row_dict] by blast
    from only have "is_emitted ?details" by (simp add: is_emitted_iff)
    from emitted [OF this] obtain e
      where e: "reconcile_row ops db pk_cols compare_cols final_column_names row_tuple = Some e"
        and d: "entry_diffs e = emitted_diffs ?details" by blast
    have st: "entry_status e = Some ''present_in_table2_only''"
      using only no1 by (simp add: entry_status_def d emitted_diffs_status status_indicators_cases)
    have "\<forall>col\<in>set compare_cols. col \<noteq> ''_status'' \<longrightarrow>
                map_of (entry_diffs e) col =
                  Some (ValuePair None (dict_get row_dict (''t2_'' @ col)))"
      using only by (simp add: d emitted_diffs_other row_details_t2_only map_of_fold_update)
    with e st show "\<exists>e. reconcile_row ops db pk_cols compare_cols final_column_names row_tuple = Some e \<and>
             entry_status e = Some ''present_in_table2_only'' \<and>
             (\<forall>col\<in>set compare_cols. col \<noteq> ''_status'' \<longrightarrow>
                map_of (entry_diffs e) col =
                  Some (ValuePair None (dict_get row_dict (''t2_'' @ col))))"
      by blast
  qed
  from t1 t2 not_both_only [of pk_cols row_dict] show ?thesis by blast
qed

theorem presence_only_rows_witness:
  "\<exists>e. reconcile_row int_value_ops ''duckdb'' [''id''] [''name'', ''value'']
          [''id'', ''t1_id'', ''t1_name'', ''t1_value'', ''t2_id'', ''t2_name'', ''t2_value'']
          [Some 5, Some 5, Some 8, Some 500, None, None, None] = Some e \<and>
       entry_status e = Some ''present_in_table1_only'' \<and>
       map_of (entry_diffs e) ''name'' = Some (ValuePair (Some 8) None) \<and>
       map_of (entry_diffs e) ''value'' = Some (ValuePair (Some 500) None)"
proof -
  let ?names = "[''id'', ''t1_id'', ''t1_name'', ''t1_value'', ''t2_id'', ''t2_name'', ''t2_value'']"
  let ?row = "[Some 5, Some 5, Some 8, Some 500, None, None, None] :: int option list"
  let ?rd = "dict_of (zip ?names ?row)"
  have only: "is_t1_only [''id''] ?rd"
    by (simp add: row_eval)
  have v: "dict_get ?rd ''t1_value'' = Some 500" "dict_get ?rd ''t1_name'' = Some 8"
    by (simp_all add: row_eval)
  from presence_only_rows [OF refl, of "[''id'']" ?names ?row int_value_ops "''duckdb''"
      "[''name'', ''value'']"] only v
  show ?thesis by auto
qed


text \<open>The same at a key of two columns, of which side 1 holds only the first: every
  side-2 key value is null and one side-1 key value is present.\<close>

theorem presence_only_rows_composite_key:
  "\<exists>e. reconcile_row int_value_ops ''duckdb'' [''a'', ''b''] [''value'']
          [''a'', ''b'', ''t1_a'', ''t1_b'', ''t1_value'', ''t2_a'', ''t2_b'', ''t2_value'']
          [Some 1, None, Some 1, None, Some 500, None, None, None] = Some e \<and>
       entry_status e = Some ''present_in_table1_only'' \<and>
       map_of (entry_diffs e) ''value'' = Some (ValuePair (Some 500) None)"
proof -
  let ?names = "[''a'', ''b'', ''t1_a'', ''t1_b'', ''t1_value'', ''t2_a'', ''t2_b'', ''t2_value'']"
  let ?row = "[Some 1, None, Some 1, None, Some 500, None, None, None] :: int option list"
  let ?rd = "dict_of (zip ?names ?row)"
  have only: "is_t1_only [''a'', ''b''] ?rd"
    by (simp add: row_eval)
  have v: "dict_get ?rd ''t1_value'' = Some 500"
    by (simp add: row_eval)
  from presence_only_rows [OF refl, of "[''a'', ''b'']" ?names ?row int_value_ops "''duckdb''"
      "[''value'']"] only v
  show ?thesis by auto
qed

text \<open>
  Claim C4.  A row in which every side-2 key value is absent and some side-1 key
  value is present is emitted with the status \<open>present_in_table1_only\<close>, and the
  differences of the record map every compare column to a pair whose second element
  is absent (the same with the sides exchanged); no row is both table1-only and
  table2-only.  The code breaks this for a compare column named \<open>_status\<close>.  The
  row below is table1-only; line 360 stores the pair of 7 and null in
  \<open>diff_details\<close>, and line 386 stores the status string under the same key of the
  same dictionary, so that the emitted \<open>diffs\<close> maps the column to
  \<open>present_in_table1_only\<close> and not to a pair.
\<close>

theorem status_column_presence_pair_lost:
  "is_t1_only [''id'']
       (dict_of (zip [''id'', ''t1_id'', ''t1__status'', ''t2_id'', ''t2__status'']
                     [Some 5, Some 5, Some 7, None, None :: int option]))
   \<and> fst (row_details int_value_ops ''duckdb'' [''id''] [''_status'']
        (dict_of (zip [''id'', ''t1_id'', ''t1__status'', ''t2_id'', ''t2__status'']
                      [Some 5, Some 5, Some 7, None, None]))) =
      [(''_status'', ValuePair (Some 7) None)]
   \<and> reconcile_row int_value_ops ''duckdb'' [''id''] [''_status'']
        [''id'', ''t1_id'', ''t1__status'', ''t2_id'', ''t2__status'']
        [Some 5, Some 5, Some 7, None, None] =
      Some [(''id'', Value (Some 5)),
            (''diffs'', Diffs [(''_status'', Status ''present_in_table1_only'')])]"
  by (simp add: row_eval reconcile_row_def row_details_def
      is_emitted_def emitted_diffs_def Let_def)

lemma entry_status_emitted:
  assumes "reconcile_row ops db pk_cols compare_cols names row = Some e"
  shows "\<exists>s. snd (row_details ops db pk_cols compare_cols (dict_of (zip names row))) = [s] \<and>
             s = (if is_t1_only pk_cols (dict_of (zip names row)) then ''present_in_table1_only''
                  else if is_t2_only pk_cols (dict_of (zip names row)) then ''present_in_table2_only''
                  else ''value_differences'') \<and>
             entry_status e = Some s"
proof -
  let ?rd = "dict_of (zip names row)"
  let ?details = "row_details ops db pk_cols compare_cols ?rd"
  from reconcile_row_Some [OF assms]
  have em: "is_emitted ?details" and d: "entry_diffs e = emitted_diffs ?details" by simp_all
  let ?s = "if is_t1_only pk_cols ?rd then ''present_in_table1_only''
            else if is_t2_only pk_cols ?rd then ''present_in_table2_only''
            else ''value_differences''"
  from em have si: "snd ?details = [?s]"
    by (auto simp: is_emitted_iff status_indicators_cases)
  then have "map_of (emitted_diffs ?details) ''_status'' = Some (Status ?s)"
    by (simp add: emitted_diffs_status)
  then have "entry_status e = Some ?s"
    by (simp add: entry_status_def d)
  with si show ?thesis by blast
qed

text \<open>
  Claim C5.  A row is emitted only if its \<open>diff_details\<close> is not empty or its status
  is one of the two presence-only kinds; it is emitted exactly when it is
  table1-only, table2-only or some compare column differs.  Hence, with no compare
  column, every emitted record is presence-only and none has the status
  \<open>value_differences\<close>.
\<close>

theorem emitted_only_with_difference_or_presence:
  fixes ops :: "'v value_ops"
  shows
    "(reconcile_row ops db pk_cols compare_cols names row = Some e \<longrightarrow>
        fst (row_details ops db pk_cols compare_cols (dict_of (zip names row))) \<noteq> [] \<or>
        entry_status e = Some ''present_in_table1_only'' \<or>
        entry_status e = Some ''present_in_table2_only'')
     \<and> ((reconcile_row ops db pk_cols compare_cols names row \<noteq> None) =
          (is_t1_only pk_cols (dict_of (zip names row)) \<or>
           is_t2_only pk_cols (dict_of (zip names row)) \<or>
           (\<exists>col\<in>set compare_cols. differs ops db (dict_of (zip names row)) col)))
     \<and> (\<forall>e'\<in>set (reconcile ops db pk_cols [] names rows).
          (entry_status e' = Some ''present_in_table1_only'' \<or>
           entry_status e' = Some ''present_in_table2_only'') \<and>
          entry_status e' \<noteq> Some ''value_differences'')"
proof -
  let ?rd = "dict_of (zip names row)"
  have first: "reconcile_row ops db pk_cols compare_cols names row = Some e \<longrightarrow>
        fst (row_details ops db pk_cols compare_cols ?rd) \<noteq> [] \<or>
        entry_status e = Some ''present_in_table1_only'' \<or>
        entry_status e = Some ''present_in_table2_only''"
  proof
    assume e: "reconcile_row ops db pk_cols compare_cols names row = Some e"
    from entry_status_emitted [OF e] have st: "entry_status e =
        Some (if is_t1_only pk_cols ?rd then ''present_in_table1_only''
              else if is_t2_only pk_cols ?rd then ''present_in_table2_only''
              else ''value_differences'')" by simp
    from reconcile_row_Some [OF e]
    have em: "is_emitted (row_details ops db pk_cols compare_cols ?rd)" by simp
    show "fst (row_details ops db pk_cols compare_cols ?rd) \<noteq> [] \<or>
        entry_status e = Some ''present_in_table1_only'' \<or>
        entry_status e = Some ''present_in_table2_only''"
    proof (cases "is_t1_only pk_cols ?rd \<or> is_t2_only pk_cols ?rd")
      case True
      with st show ?thesis by auto
    next
      case False
      with em have "\<exists>col\<in>set compare_cols. differs ops db ?rd col"
        by (simp add: is_emitted_iff)
      with False have "fst (row_details ops db pk_cols compare_cols ?rd) \<noteq> []"
        by (simp add: row_details_both(3))
      then show ?thesis by simp
    qed
  qed
  have second: "(reconcile_row ops db pk_cols compare_cols names row \<noteq> None) =
          (is_t1_only pk_cols ?rd \<or> is_t2_only pk_cols ?rd \<or>
           (\<exists>col\<in>set compare_cols. differs ops db ?rd col))"
    by (simp add: reconcile_row_def Let_def is_emitted_iff)
  have third: "\<forall>e'\<in>set (reconcile ops db pk_cols [] names rows).
          (entry_status e' = Some ''present_in_table1_only'' \<or>
           entry_status e' = Some ''present_in_table2_only'') \<and>
          entry_status e' \<noteq> Some ''value_differences''"
  proof
    fix e'
    assume "e' \<in> set (reconcile ops db pk_cols [] names rows)"
    then obtain r where r: "reconcile_row ops db pk_cols [] names r = Some e'"
      by (auto simp: reconcile_set)
    from reconcile_row_Some [OF r]
    have "is_emitted (row_details ops db pk_cols [] (dict_of (zip names r)))" by simp
    then have only: "is_t1_only pk_cols (dict_of (zip names r)) \<or>
        is_t2_only pk_cols (dict_of (zip names r))"
      by (simp add: is_emitted_iff)
    from entry_status_emitted [OF r] have "entry_status e' =
        Some (if is_t1_only pk_cols (dict_of (zip names r)) then ''present_in_table1_only''
              else if is_t2_only pk_cols (dict_of (zip names r)) then ''present_in_table2_only''
              else ''value_differences'')" by simp
    with only show "(entry_status e' = Some ''present_in_table1_only'' \<or>
           entry_status e' = Some ''present_in_table2_only'') \<and>
          entry_status e' \<noteq> Some ''value_differences''"
      by auto
  qed
  from first second third show ?thesis by blast
qed


theorem emitted_only_with_difference_or_presence_witness:
  "reconcile_row int_value_ops ''duckdb'' [''id''] [] [''id'', ''t1_id'', ''t2_id'']
      [Some 5, Some 5, None] =
     Some [(''id'', Value (Some 5)), (''diffs'', Diffs [(''_status'', Status ''present_in_table1_only'')])]
   \<and> entry_status [(''id'', Value (Some (5::int))),
                    (''diffs'', Diffs [(''_status'', Status ''present_in_table1_only'')])] =
        Some ''present_in_table1_only''
   \<and> reconcile int_value_ops ''duckdb'' [''id''] [] [''id'', ''t1_id'', ''t2_id'']
     [[Some 1, Some 1, Some 1], [Some 5, Some 5, None], [Some 4, None, Some 4]] =
     [[(''id'', Value (Some 5)), (''diffs'', Diffs [(''_status'', Status ''present_in_table1_only'')])],
      [(''id'', Value (Some 4)), (''diffs'', Diffs [(''_status'', Status ''present_in_table2_only'')])]]
   \<and> entry_status [(''id'', Value (Some (4::int))),
                    (''diffs'', Diffs [(''_status'', Status ''present_in_table2_only'')])] =
        Some ''present_in_table2_only''"
proof -
  let ?names = "[''id'', ''t1_id'', ''t2_id'']"
  let ?row = "[Some 5, Some 5, None] :: int option list"
  let ?rows = "[[Some 1, Some 1, Some 1], ?row, [Some 4, None, Some 4]]"
  let ?e = "[(''id'', Value (Some (5::int))),
             (''diffs'', Diffs [(''_status'', Status ''present_in_table1_only'')])]"
  let ?e2 = "[(''id'', Value (Some (4::int))),
              (''diffs'', Diffs [(''_status'', Status ''present_in_table2_only'')])]"
  have e: "reconcile_row int_value_ops ''duckdb'' [''id''] [] ?names ?row = Some ?e"
    by (simp add: row_eval reconcile_row_def row_details_def is_emitted_def emitted_diffs_def Let_def)
  have d: "fst (row_details int_value_ops ''duckdb'' [''id''] [] (dict_of (zip ?names ?row))) = []"
    by (simp add: row_eval row_details_def)
  have t2: "entry_status ?e \<noteq> Some ''present_in_table2_only''"
    by (simp add: entry_status_def entry_diffs_def)
  have all: "reconcile int_value_ops ''duckdb'' [''id''] [] ?names ?rows = [?e, ?e2]"
    by (simp add: row_eval reconcile_row_def row_details_def is_emitted_def emitted_diffs_def Let_def)
  have t1: "entry_status ?e2 \<noteq> Some ''present_in_table1_only''"
    by (simp add: entry_status_def entry_diffs_def)
  from emitted_only_with_difference_or_presence [of int_value_ops "''duckdb''" "[''id'']"
      "[]" ?names ?row ?e ?rows] e d t2
  have s1: "entry_status ?e = Some ''present_in_table1_only''"
    and b: "\<forall>e'\<in>set (reconcile int_value_ops ''duckdb'' [''id''] [] ?names ?rows).
        entry_status e' = Some ''present_in_table1_only'' \<or>
        entry_status e' = Some ''present_in_table2_only''"
    by auto
  from b all have "entry_status ?e2 = Some ''present_in_table1_only'' \<or>
        entry_status ?e2 = Some ''present_in_table2_only''"
    by simp
  with t1 have s2: "entry_status ?e2 = Some ''present_in_table2_only''" by blast
  from e s1 all s2 show ?thesis by blast
qed

text \<open>
  Claim C9.  Every emitted record has exactly one status indicator, and the string
  stored for it is one of \<open>value_differences\<close>, \<open>present_in_table1_only\<close> and
  \<open>present_in_table2_only\<close>: the presence kinds for the table1-only and the
  table2-only rows, \<open>value_differences\<close> for every other emitted row.
\<close>

theorem exactly_one_status:
  fixes ops :: "'v value_ops"
  shows
    "(reconcile_row ops db pk_cols compare_cols names row = Some e \<longrightarrow>
        (\<exists>s. snd (row_details ops db pk_cols compare_cols (dict_of (zip names row))) = [s] \<and>
             entry_status e = Some s \<and>
             s = (if is_t1_only pk_cols (dict_of (zip names row)) then ''present_in_table1_only''
                  else if is_t2_only pk_cols (dict_of (zip names row))
                  then ''present_in_table2_only''
                  else ''value_differences'')))
     \<and> (\<forall>e'\<in>set (reconcile ops db pk_cols compare_cols names rows).
          entry_status e' = Some ''value_differences'' \<or>
          entry_status e' = Some ''present_in_table1_only'' \<or>
          entry_status e' = Some ''present_in_table2_only'')"
proof -
  have row: "reconcile_row ops db pk_cols compare_cols names row = Some e \<longrightarrow>
        (\<exists>s. snd (row_details ops db pk_cols compare_cols (dict_of (zip names row))) = [s] \<and>
             entry_status e = Some s \<and>
             s = (if is_t1_only pk_cols (dict_of (zip names row)) then ''present_in_table1_only''
                  else if is_t2_only pk_cols (dict_of (zip names row))
                  then ''present_in_table2_only''
                  else ''value_differences''))"
    using entry_status_emitted [of ops db pk_cols compare_cols names row e] by blast
  have all: "\<forall>e'\<in>set (reconcile ops db pk_cols compare_cols names rows).
          entry_status e' = Some ''value_differences'' \<or>
          entry_status e' = Some ''present_in_table1_only'' \<or>
          entry_status e' = Some ''present_in_table2_only''"
  proof
    fix e'
    assume "e' \<in> set (reconcile ops db pk_cols compare_cols names rows)"
    then obtain r where r: "reconcile_row ops db pk_cols compare_cols names r = Some e'"
      by (auto simp: reconcile_set)
    from entry_status_emitted [OF r]
    show "entry_status e' = Some ''value_differences'' \<or>
          entry_status e' = Some ''present_in_table1_only'' \<or>
          entry_status e' = Some ''present_in_table2_only''"
      by auto
  qed
  from row all show ?thesis by blast
qed

theorem exactly_one_status_witness:
  "reconcile_row int_value_ops ''duckdb'' [''id''] [''value'']
       [''id'', ''t1_id'', ''t1_value'', ''t2_id'', ''t2_value'']
       [Some 2, Some 2, Some 200, Some 2, Some 250] =
     Some [(''id'', Value (Some 2)),
       (''diffs'', Diffs [(''value'', ValuePair (Some 200) (Some 250)),
                          (''_status'', Status ''value_differences'')])]
   \<and> entry_status [(''id'', Value (Some (2::int))),
       (''diffs'', Diffs [(''value'', ValuePair (Some 200) (Some 250)),
                          (''_status'', Status ''value_differences'')])] = Some ''value_differences''
   \<and> snd (row_details int_value_ops ''duckdb'' [''id''] [''value'']
        (dict_of (zip [''id'', ''t1_id'', ''t1_value'', ''t2_id'', ''t2_value'']
                      [Some 2, Some 2, Some 200, Some 2, Some 250]))) = [''value_differences'']
   \<and> reconcile int_value_ops ''duckdb'' [''id''] [''value'']
       [''id'', ''t1_id'', ''t1_value'', ''t2_id'', ''t2_value'']
       [[Some 1, Some 1, Some 100, Some 1, Some 100], [Some 5, Some 5, Some 500, None, None]] =
     [[(''id'', Value (Some 5)),
       (''diffs'', Diffs [(''value'', ValuePair (Some 500) None),
                          (''_status'', Status ''present_in_table1_only'')])]]
   \<and> entry_status [(''id'', Value (Some (5::int))),
       (''diffs'', Diffs [(''value'', ValuePair (Some 500) None),
                          (''_status'', Status ''present_in_table1_only'')])] =
     Some ''present_in_table1_only''"
proof -
  let ?names = "[''id'', ''t1_id'', ''t1_value'', ''t2_id'', ''t2_value'']"
  let ?row = "[Some 2, Some 2, Some 200, Some 2, Some 250] :: int option list"
  let ?rows = "[[Some 1, Some 1, Some 100, Some 1, Some 100],
                [Some 5, Some 5, Some 500, None, None]] :: int option list list"
  let ?e = "[(''id'', Value (Some (2::int))),
       (''diffs'', Diffs [(''value'', ValuePair (Some 200) (Some 250)),
                          (''_status'', Status ''value_differences'')])]"
  let ?e5 = "[(''id'', Value (Some (5::int))),
       (''diffs'', Diffs [(''value'', ValuePair (Some 500) None),
                          (''_status'', Status ''present_in_table1_only'')])]"
  have e: "reconcile_row int_value_ops ''duckdb'' [''id''] [''value''] ?names ?row = Some ?e"
    by (simp add: row_eval reconcile_row_def row_details_def value_diff_step_def coerce_def
        is_emitted_def emitted_diffs_def int_value_ops_def Let_def)
  have b: "\<not> is_t1_only [''id''] (dict_of (zip ?names ?row))"
      "\<not> is_t2_only [''id''] (dict_of (zip ?names ?row))"
    by (simp_all add: row_eval)
  have all: "reconcile int_value_ops ''duckdb'' [''id''] [''value''] ?names ?rows = [?e5]"
    by (simp add: row_eval reconcile_row_def row_details_def value_diff_step_def coerce_def
        is_emitted_def emitted_diffs_def int_value_ops_def Let_def)
  have other: "entry_status ?e5 \<noteq> Some ''value_differences''"
      "entry_status ?e5 \<noteq> Some ''present_in_table2_only''"
    by (simp_all add: entry_status_def entry_diffs_def)
  from exactly_one_status [of int_value_ops "''duckdb''" "[''id'']" "[''value'']" ?names ?row ?e
      ?rows] e b
  have s: "entry_status ?e = Some ''value_differences''"
    and d: "snd (row_details int_value_ops ''duckdb'' [''id''] [''value'']
           (dict_of (zip ?names ?row))) = [''value_differences'']"
    and q: "\<forall>e'\<in>set (reconcile int_value_ops ''duckdb'' [''id''] [''value''] ?names ?rows).
        entry_status e' = Some ''value_differences'' \<or>
        entry_status e' = Some ''present_in_table1_only'' \<or>
        entry_status e' = Some ''present_in_table2_only''"
    by auto
  from q all have "entry_status ?e5 = Some ''value_differences'' \<or>
        entry_status ?e5 = Some ''present_in_table1_only'' \<or>
        entry_status ?e5 = Some ''present_in_table2_only''"
    by simp
  with other have s5: "entry_status ?e5 = Some ''present_in_table1_only''" by blast
  from e s d all s5 show ?thesis by blast
qed

text \<open>
  Claim C10.  When the status list of an emitted row is not empty, the status string
  is stored in the dictionary of the differences itself, under the key \<open>_status\<close>,
  and the emitted entry has no other keys than the key columns and \<open>diffs\<close>.  For
  the compare column \<open>_status\<close> with the values 7 and 8, \<open>diff_details\<close> holds the
  pair before the status is stored, and the emitted record holds the status string in
  its place.
\<close>

theorem status_stored_in_diffs:
  fixes ops :: "'v value_ops"
  shows
    "(reconcile_row ops db pk_cols compare_cols names row = Some e \<and>
      snd (row_details ops db pk_cols compare_cols (dict_of (zip names row))) \<noteq> [] \<longrightarrow>
        map_of (entry_diffs e) ''_status'' =
          Some (Status (join '',''
                  (snd (row_details ops db pk_cols compare_cols (dict_of (zip names row)))))) \<and>
        fst ` set e = set pk_cols \<union> {''diffs''})
     \<and> map_of (fst (row_details int_value_ops ''duckdb'' [''id''] [''_status'']
                      (dict_of (zip [''id'', ''t1_id'', ''t1__status'', ''t2_id'', ''t2__status'']
                                    [Some 2, Some 2, Some 7, Some 2, Some 8]))))
          ''_status'' = Some (ValuePair (Some 7) (Some 8))
     \<and> reconcile_row int_value_ops ''duckdb'' [''id''] [''_status'']
          [''id'', ''t1_id'', ''t1__status'', ''t2_id'', ''t2__status'']
          [Some 2, Some 2, Some 7, Some 2, Some 8] =
        Some [(''id'', Value (Some 2)),
              (''diffs'', Diffs [(''_status'', Status ''value_differences'')])]"
proof -
  have general: "reconcile_row ops db pk_cols compare_cols names row = Some e \<and>
      snd (row_details ops db pk_cols compare_cols (dict_of (zip names row))) \<noteq> [] \<longrightarrow>
        map_of (entry_diffs e) ''_status'' =
          Some (Status (join '',''
                  (snd (row_details ops db pk_cols compare_cols (dict_of (zip names row)))))) \<and>
        fst ` set e = set pk_cols \<union> {''diffs''}"
  proof
    assume a: "reconcile_row ops db pk_cols compare_cols names row = Some e \<and>
      snd (row_details ops db pk_cols compare_cols (dict_of (zip names row))) \<noteq> []"
    then have "entry_diffs e =
        emitted_diffs (row_details ops db pk_cols compare_cols (dict_of (zip names row)))"
      using reconcile_row_Some [of ops db pk_cols compare_cols names row e] by simp
    with a have "map_of (entry_diffs e) ''_status'' =
          Some (Status (join '',''
                  (snd (row_details ops db pk_cols compare_cols (dict_of (zip names row))))))"
      by (simp add: emitted_diffs_status)
    moreover from a have "fst ` set e = set pk_cols \<union> {''diffs''}"
      using emitted_entry_keys [of ops db pk_cols compare_cols names row e] by simp
    ultimately show "map_of (entry_diffs e) ''_status'' =
          Some (Status (join '',''
                  (snd (row_details ops db pk_cols compare_cols (dict_of (zip names row)))))) \<and>
        fst ` set e = set pk_cols \<union> {''diffs''}" by simp
  qed
  have before: "map_of (fst (row_details int_value_ops ''duckdb'' [''id''] [''_status'']
                      (dict_of (zip [''id'', ''t1_id'', ''t1__status'', ''t2_id'', ''t2__status'']
                                    [Some 2, Some 2, Some 7, Some 2, Some 8]))))
          ''_status'' = Some (ValuePair (Some 7) (Some 8))"
    by (simp add: row_eval row_details_def value_diff_step_def coerce_def int_value_ops_def Let_def)
  have after: "reconcile_row int_value_ops ''duckdb'' [''id''] [''_status'']
          [''id'', ''t1_id'', ''t1__status'', ''t2_id'', ''t2__status'']
          [Some 2, Some 2, Some 7, Some 2, Some 8] =
        Some [(''id'', Value (Some 2)),
              (''diffs'', Diffs [(''_status'', Status ''value_differences'')])]"
    by (simp add: row_eval reconcile_row_def row_details_def value_diff_step_def coerce_def
        is_emitted_def emitted_diffs_def int_value_ops_def Let_def)
  from general before after show ?thesis by blast
qed

theorem status_stored_in_diffs_witness:
  "map_of (entry_diffs [(''id'', Value (Some (5::int))),
       (''diffs'', Diffs [(''name'', ValuePair (Some 8) None),
                          (''_status'', Status ''present_in_table1_only'')])]) ''_status'' =
     Some (Status ''present_in_table1_only'')
   \<and> reconcile_row int_value_ops ''duckdb'' [''id''] [''name'']
       [''id'', ''t1_id'', ''t1_name'', ''t2_id'', ''t2_name'']
       [Some 5, Some 5, Some 8, None, None] =
     Some [(''id'', Value (Some 5)),
       (''diffs'', Diffs [(''name'', ValuePair (Some 8) None),
                          (''_status'', Status ''present_in_table1_only'')])]"
proof -
  let ?names = "[''id'', ''t1_id'', ''t1_name'', ''t2_id'', ''t2_name'']"
  let ?row = "[Some 5, Some 5, Some 8, None, None] :: int option list"
  let ?e = "[(''id'', Value (Some (5::int))),
       (''diffs'', Diffs [(''name'', ValuePair (Some 8) None),
                          (''_status'', Status ''present_in_table1_only'')])]"
  have e: "reconcile_row int_value_ops ''duckdb'' [''id''] [''name''] ?names ?row = Some ?e"
    by (simp add: row_eval reconcile_row_def row_details_def is_emitted_def emitted_diffs_def Let_def)
  have s: "snd (row_details int_value_ops ''duckdb'' [''id''] [''name''] (dict_of (zip ?names ?row))) =
      [''present_in_table1_only'']"
    by (simp add: row_eval row_details_def)
  from status_stored_in_diffs [of int_value_ops "''duckdb''" "[''id'']" "[''name'']" ?names ?row ?e]
    e s
  have "map_of (entry_diffs ?e) ''_status'' = Some (Status ''present_in_table1_only'')"
    by simp
  with e show ?thesis by blast
qed


end
